theory Spec2Isabelle
  imports Main
begin

section \<open>Resilient API client of the yoga-pose-detection frontend\<close>

text \<open>
  The authentication context exists in three variants: \<^verbatim>\<open>frontend/src/contexts/AuthContext.js\<close>
  (one fixed base URL, retrying \<^verbatim>\<open>apiCall\<close>), \<^verbatim>\<open>part_000\<close> (health probe with abort
  timeouts, retrying \<^verbatim>\<open>apiCall\<close> against the endpoint selected by the probe) and
  \<^verbatim>\<open>part_001\<close> (health probe, \<^verbatim>\<open>apiCall\<close> with reactive failover to the other endpoint).
  Every \<^verbatim>\<open>await\<close> of the source is a call to the environment; the environment is a
  parameter of the model and its answer may depend on the number of transport calls made
  so far, so that one endpoint can fail first and succeed later. A promise that never
  settles is a value of the model too: a function that awaits it does not return.
\<close>

subsection \<open>JavaScript values\<close>

text \<open>An \<^verbatim>\<open>Error\<close> object: its \<^verbatim>\<open>name\<close> and its \<^verbatim>\<open>message\<close>.\<close>

datatype js_error = JsError (err_name: string) (err_message: string)

text \<open>
  A plain object with string values (a header set, a parsed JSON reply of the backend,
  whose handlers answer with objects such as \<^verbatim>\<open>{ message: 'Route not found' }\<close>).
\<close>

type_synonym obj = "string \<rightharpoonup> string"

text \<open>
  A parsed JSON value, as far as the core looks at it: \<^verbatim>\<open>null\<close>, on which reading a
  property throws, or an object.
\<close>

datatype json = JsonNull | JsonObject obj

text \<open>\<^verbatim>\<open>{...a, ...b}\<close>: the keys of \<open>b\<close> win.\<close>

definition spread :: "obj \<Rightarrow> obj \<Rightarrow> obj" where
  "spread a b = a ++ b"

text \<open>Spreading \<^verbatim>\<open>undefined\<close> (or any falsy value) adds no key.\<close>

definition spread_opt :: "obj \<Rightarrow> obj option \<Rightarrow> obj" where
  "spread_opt a b = (case b of None \<Rightarrow> a | Some h \<Rightarrow> spread a h)"

text \<open>A string is truthy unless it is empty; \<^verbatim>\<open>null\<close> and \<^verbatim>\<open>undefined\<close> are falsy.\<close>

definition truthy :: "string option \<Rightarrow> bool" where
  "truthy s = (case s of None \<Rightarrow> False | Some t \<Rightarrow> t \<noteq> [])"

text \<open>\<^verbatim>\<open>a || b\<close> on an optional string \<open>a\<close>.\<close>

definition or_else :: "string option \<Rightarrow> string \<Rightarrow> string" where
  "or_else a b = (case a of None \<Rightarrow> b | Some t \<Rightarrow> if t = [] then b else t)"

text \<open>\<^verbatim>\<open>s.includes(sub)\<close>: \<open>sub\<close> occurs in \<open>s\<close> as a contiguous run.\<close>

definition starts_with :: "string \<Rightarrow> string \<Rightarrow> bool" where
  "starts_with s sub = (take (length sub) s = sub)"

fun str_includes :: "string \<Rightarrow> string \<Rightarrow> bool" where
  "str_includes [] sub = (sub = [])"
| "str_includes (c # cs) sub = (starts_with (c # cs) sub \<or> str_includes cs sub)"

subsection \<open>Requests, responses and the environment\<close>

datatype wire_body = NoBody | Raw string | Structured json

datatype deadline =
    NoDeadline
  | AbortAfter nat
  | TimeoutOption nat
  | NativeTimeouts nat nat

record request =
  req_url :: string
  req_method :: "string option"
  req_headers :: obj
  req_body :: wire_body
  req_deadline :: deadline

text \<open>
  What \<^verbatim>\<open>fetch\<close> resolves to: the status and the outcome of \<^verbatim>\<open>res.json()\<close>. The
  response is taken to arrive whole: once the fetch has resolved, reading the body settles,
  with the parsed value or with a parse error.
\<close>

record fetch_response =
  res_status :: nat
  res_json :: "js_error + json"

definition ok :: "fetch_response \<Rightarrow> bool" where
  "ok res = (200 \<le> res_status res \<and> res_status res \<le> 299)"

text \<open>What \<^verbatim>\<open>CapacitorHttp.request\<close> resolves to: the status and the parsed \<^verbatim>\<open>data\<close>.\<close>

record cap_response =
  cap_status :: nat
  cap_data :: json

text \<open>
  The runtime: the platform check \<^verbatim>\<open>isNative()\<close>, the two transports,
  \<^verbatim>\<open>JSON.parse\<close> and the message of the \<^verbatim>\<open>TypeError\<close> that the engine throws when a
  property of \<^verbatim>\<open>null\<close> is read. A transport either rejects with an error (\<open>Inl\<close>:
  network failure, abort at the deadline) or resolves with a response; its first argument
  is the number of transport calls made before this one.

  A fetch whose signal belongs to an \<^verbatim>\<open>AbortController\<close> with a running timer settles at
  the latest when the timer fires, then with an \<^verbatim>\<open>AbortError\<close>; the native transport
  is given its own timeouts. For these, \<open>fetch\<close> and \<open>capacitorHttp\<close> give what the
  promise settles with. A fetch without such a signal settles only if the network ever
  answers: \<open>settles\<close> says whether it does, and \<open>fetch\<close> then gives the outcome. (A
  \<^verbatim>\<open>timeout\<close> property in the init object is not an option of \<^verbatim>\<open>fetch\<close> and
  changes nothing.)
\<close>

record env =
  isNative :: bool
  fetch :: "nat \<Rightarrow> request \<Rightarrow> js_error + fetch_response"
  settles :: "nat \<Rightarrow> request \<Rightarrow> bool"
  capacitorHttp :: "nat \<Rightarrow> request \<Rightarrow> js_error + cap_response"
  JSON_parse :: "string \<Rightarrow> js_error + json"
  null_read_message :: string

subsection \<open>Process-wide state\<close>

datatype api_status = Checking | Production | Local | Offline

datatype event = Dispatch request | Sleep nat

text \<open>
  The two React state cells written by the core, the transport-call counter and the log
  of what the core did (requests handed to a transport, backoff waits). A state setter is
  an immediate write to its cell. A callback does not read the cells: it sees the values
  of \<^verbatim>\<open>token\<close> and \<^verbatim>\<open>currentApiUrl\<close> of the render that created it, and these
  captured values are explicit arguments of the executors below.
\<close>

record world =
  currentApiUrl :: string
  apiStatus :: api_status
  tick :: nat
  trace :: "event list"

record config =
  PRODUCTION_API_URL :: string
  LOCAL_API_URL :: string

text \<open>\<^verbatim>\<open>useState('checking')\<close>, \<^verbatim>\<open>useState(PRODUCTION_API_URL)\<close>.\<close>

definition initial_world :: "config \<Rightarrow> world" where
  "initial_world cfg =
     \<lparr>currentApiUrl = PRODUCTION_API_URL cfg, apiStatus = Checking, tick = 0, trace = []\<rparr>"

definition setCurrentApiUrl :: "string \<Rightarrow> world \<Rightarrow> world" where
  "setCurrentApiUrl u w = w\<lparr>currentApiUrl := u\<rparr>"

definition setApiStatus :: "api_status \<Rightarrow> world \<Rightarrow> world" where
  "setApiStatus s w = w\<lparr>apiStatus := s\<rparr>"

text \<open>\<^verbatim>\<open>await fetch(url, {..., signal})\<close> with the abort timer running: it always settles.\<close>

definition await_fetch_with_abort ::
  "env \<Rightarrow> request \<Rightarrow> world \<Rightarrow> (js_error + fetch_response) \<times> world" where
  "await_fetch_with_abort e req w =
     (fetch e (tick w) req, w\<lparr>tick := Suc (tick w), trace := trace w @ [Dispatch req]\<rparr>)"

text \<open>
  \<^verbatim>\<open>await fetch(url, init)\<close> without abort signal: \<open>None\<close> when the promise never
  settles, and then the caller never resumes.
\<close>

definition await_fetch ::
  "env \<Rightarrow> request \<Rightarrow> world \<Rightarrow> (js_error + fetch_response) option \<times> world" where
  "await_fetch e req w =
     (if settles e (tick w) req then Some (fetch e (tick w) req) else None,
      w\<lparr>tick := Suc (tick w), trace := trace w @ [Dispatch req]\<rparr>)"

definition await_capacitor :: "env \<Rightarrow> request \<Rightarrow> world \<Rightarrow> (js_error + cap_response) \<times> world" where
  "await_capacitor e req w =
     (capacitorHttp e (tick w) req, w\<lparr>tick := Suc (tick w), trace := trace w @ [Dispatch req]\<rparr>)"

text \<open>\<^verbatim>\<open>await new Promise(r => setTimeout(r, ms))\<close>.\<close>

definition sleep :: "nat \<Rightarrow> world \<Rightarrow> world" where
  "sleep ms w = w\<lparr>trace := trace w @ [Sleep ms]\<rparr>"

text \<open>The requests and the waits recorded in a log.\<close>

fun dispatched :: "event list \<Rightarrow> request list" where
  "dispatched [] = []"
| "dispatched (Dispatch r # es) = r # dispatched es"
| "dispatched (Sleep n # es) = dispatched es"

fun sleeps :: "event list \<Rightarrow> nat list" where
  "sleeps [] = []"
| "sleeps (Dispatch r # es) = sleeps es"
| "sleeps (Sleep n # es) = n # sleeps es"

subsection \<open>Health probe, \<^verbatim>\<open>part_000\<close>\<close>

definition health_request :: "string \<Rightarrow> deadline \<Rightarrow> request" where
  "health_request baseUrl d =
     \<lparr>req_url = baseUrl @ ''/health'', req_method = Some ''GET'', req_headers = Map.empty,
      req_body = NoBody, req_deadline = d\<rparr>"

text \<open>
  \<^verbatim>\<open>tryHealth(baseUrl, timeoutMs)\<close>: the fetch is aborted after \<open>timeoutMs\<close>; a response
  that is not ok throws.
\<close>

definition tryHealth :: "env \<Rightarrow> string \<Rightarrow> nat \<Rightarrow> world \<Rightarrow> (js_error + unit) \<times> world" where
  "tryHealth e baseUrl timeoutMs w =
     (case await_fetch_with_abort e (health_request baseUrl (AbortAfter timeoutMs)) w of
        (Inl err, w') \<Rightarrow> (Inl err, w')
      | (Inr res, w') \<Rightarrow>
          if \<not> ok res then (Inl (JsError ''Error'' ''Health check failed''), w')
          else (Inr (), w'))"

definition checkApiHealth_part000 ::
  "config \<Rightarrow> env \<Rightarrow> world \<Rightarrow> (js_error + api_status) \<times> world" where
  "checkApiHealth_part000 cfg e w =
     (let w0 = setApiStatus Checking w in
      case tryHealth e (PRODUCTION_API_URL cfg) 6000 w0 of
        (Inr _, w1) \<Rightarrow>
          (Inr Production, setApiStatus Production (setCurrentApiUrl (PRODUCTION_API_URL cfg) w1))
      | (Inl _, w1) \<Rightarrow>
          (case tryHealth e (LOCAL_API_URL cfg) 3000 w1 of
             (Inr _, w2) \<Rightarrow>
               (Inr Local, setApiStatus Local (setCurrentApiUrl (LOCAL_API_URL cfg) w2))
           | (Inl _, w2) \<Rightarrow> (Inr Offline, setApiStatus Offline w2)))"

subsection \<open>Health probe, \<^verbatim>\<open>part_001\<close>\<close>

text \<open>
  The body of the outer \<^verbatim>\<open>try\<close>. Each fetch is given a \<^verbatim>\<open>timeout\<close> property and
  no abort signal, so it may never settle; the probe is then suspended for good (\<open>None\<close>,
  with the state it has reached). A rejected fetch is caught and logged, a response that is
  not ok falls through to the next candidate.
\<close>

definition checkApiHealth_part001_body ::
  "config \<Rightarrow> env \<Rightarrow> world \<Rightarrow> (js_error + api_status) option \<times> world" where
  "checkApiHealth_part001_body cfg e w =
     (let w0 = setApiStatus Checking w in
      case await_fetch e (health_request (PRODUCTION_API_URL cfg) (TimeoutOption 5000)) w0 of
        (None, w1) \<Rightarrow> (None, w1)
      | (Some r1, w1) \<Rightarrow>
          if (case r1 of Inl prodError \<Rightarrow> False | Inr response \<Rightarrow> ok response)
          then (Some (Inr Production),
                setApiStatus Production (setCurrentApiUrl (PRODUCTION_API_URL cfg) w1))
          else
            (case await_fetch e (health_request (LOCAL_API_URL cfg) (TimeoutOption 3000)) w1 of
               (None, w2) \<Rightarrow> (None, w2)
             | (Some r2, w2) \<Rightarrow>
                 if (case r2 of Inl localError \<Rightarrow> False | Inr response \<Rightarrow> ok response)
                 then (Some (Inr Local),
                       setApiStatus Local (setCurrentApiUrl (LOCAL_API_URL cfg) w2))
                 else (Some (Inr Offline), setApiStatus Offline w2)))"

text \<open>The outer \<^verbatim>\<open>catch\<close>: anything thrown by the body ends in \<^verbatim>\<open>offline\<close>.\<close>

definition checkApiHealth_part001 ::
  "config \<Rightarrow> env \<Rightarrow> world \<Rightarrow> (js_error + api_status) option \<times> world" where
  "checkApiHealth_part001 cfg e w =
     (case checkApiHealth_part001_body cfg e w of
        (None, w') \<Rightarrow> (None, w')
      | (Some (Inl error), w') \<Rightarrow> (Some (Inr Offline), setApiStatus Offline w')
      | (Some (Inr s), w') \<Rightarrow> (Some (Inr s), w'))"

subsection \<open>Request executor with retry, \<^verbatim>\<open>AuthContext.js\<close> and \<^verbatim>\<open>part_000\<close>\<close>

text \<open>
  The \<^verbatim>\<open>options\<close> argument: the value of each property, \<open>None\<close> for
  \<^verbatim>\<open>undefined\<close>. For \<^verbatim>\<open>headers\<close> the record also says whether the property is
  present at all: a present \<^verbatim>\<open>headers: undefined\<close> and an absent one read the same, but
  spreading the whole of \<open>options\<close> into another object copies the first and not the
  second.
\<close>

record options =
  opt_method :: "string option"
  opt_headers :: "obj option"
  opt_headers_present :: bool
  opt_body :: "string option"

text \<open>\<^verbatim>\<open>token && { Authorization: `Bearer ${token}` }\<close>: an object for a truthy token only.\<close>

definition auth_header :: "string option \<Rightarrow> obj option" where
  "auth_header token =
     (case token of
        None \<Rightarrow> None
      | Some t \<Rightarrow> if t = [] then None else Some [''Authorization'' \<mapsto> ''Bearer '' @ t])"

definition compose_headers :: "string option \<Rightarrow> obj option \<Rightarrow> obj" where
  "compose_headers token hdrs =
     spread_opt (spread_opt [''Content-Type'' \<mapsto> ''application/json''] (auth_header token)) hdrs"

text \<open>
  The two files differ in the generic message and in the retry test only
  (\<^verbatim>\<open>AuthContext.js\<close> also tests for \<^verbatim>\<open>'Failed to fetch'\<close>), and in where the base
  URL comes from: the constant \<^verbatim>\<open>API_BASE_URL\<close> there, the \<^verbatim>\<open>currentApiUrl\<close> captured by
  the callback in \<^verbatim>\<open>part_000\<close>.
\<close>

datatype variant = AuthContextJs | Part000

definition generic_message :: "variant \<Rightarrow> string" where
  "generic_message v =
     (case v of AuthContextJs \<Rightarrow> ''Something went wrong'' | Part000 \<Rightarrow> ''Request failed'')"

definition retryable :: "variant \<Rightarrow> js_error \<Rightarrow> bool" where
  "retryable v err =
     (case v of
        AuthContextJs \<Rightarrow>
          err_name err = ''AbortError'' \<or> str_includes (err_message err) ''fetch''
          \<or> str_includes (err_message err) ''Failed to fetch''
          \<or> str_includes (err_message err) ''network''
      | Part000 \<Rightarrow>
          err_name err = ''AbortError'' \<or> str_includes (err_message err) ''fetch''
          \<or> str_includes (err_message err) ''network'')"

text \<open>\<^verbatim>\<open>options.body ? JSON.parse(options.body) : undefined\<close>; \<^verbatim>\<open>JSON.parse\<close> may throw.\<close>

definition native_data :: "env \<Rightarrow> string option \<Rightarrow> js_error + wire_body" where
  "native_data e body =
     (case body of
        None \<Rightarrow> Inr NoBody
      | Some b \<Rightarrow>
          if b = [] then Inr NoBody
          else (case JSON_parse e b of Inl err \<Rightarrow> Inl err | Inr d \<Rightarrow> Inr (Structured d)))"

definition native_request :: "string \<Rightarrow> obj \<Rightarrow> options \<Rightarrow> wire_body \<Rightarrow> request" where
  "native_request url headers options d =
     \<lparr>req_url = url, req_method = Some (or_else (opt_method options) ''GET''),
      req_headers = headers, req_body = d, req_deadline = NativeTimeouts 60000 60000\<rparr>"

definition web_request :: "string \<Rightarrow> obj \<Rightarrow> options \<Rightarrow> request" where
  "web_request url headers options =
     \<lparr>req_url = url, req_method = Some (or_else (opt_method options) ''GET''),
      req_headers = headers,
      req_body = (case opt_body options of None \<Rightarrow> NoBody | Some b \<Rightarrow> Raw b),
      req_deadline = AbortAfter 60000\<rparr>"

text \<open>\<^verbatim>\<open>data.message\<close>: reading a property of \<^verbatim>\<open>null\<close> throws a \<^verbatim>\<open>TypeError\<close>.\<close>

definition read_message :: "env \<Rightarrow> json \<Rightarrow> js_error + string option" where
  "read_message e d =
     (case d of
        JsonNull \<Rightarrow> Inl (JsError ''TypeError'' (null_read_message e))
      | JsonObject ob \<Rightarrow> Inr (ob ''message''))"

text \<open>\<^verbatim>\<open>data?.message\<close>: \<^verbatim>\<open>undefined\<close> on \<^verbatim>\<open>null\<close>.\<close>

definition read_message_optional :: "json \<Rightarrow> string option" where
  "read_message_optional d = (case d of JsonNull \<Rightarrow> None | JsonObject ob \<Rightarrow> ob ''message'')"

text \<open>
  On the native path \<^verbatim>\<open>AuthContext.js\<close> reads \<^verbatim>\<open>capResponse.data.message\<close> and
  \<^verbatim>\<open>part_000\<close> reads \<^verbatim>\<open>res.data?.message\<close>.
\<close>

definition native_message :: "variant \<Rightarrow> env \<Rightarrow> json \<Rightarrow> js_error + string option" where
  "native_message v e d =
     (case v of
        AuthContextJs \<Rightarrow> read_message e d
      | Part000 \<Rightarrow> Inr (read_message_optional d))"

text \<open>
  One pass through the \<^verbatim>\<open>try\<close> block of \<^verbatim>\<open>apiCall\<close>: \<open>Inl\<close> is the error that reaches
  the \<^verbatim>\<open>catch\<close>, \<open>Inr\<close> the value returned. The fetch of the web path carries the
  signal of an \<^verbatim>\<open>AbortController\<close> that aborts after 60000 ms.
\<close>

definition attempt ::
  "variant \<Rightarrow> env \<Rightarrow> string option \<Rightarrow> string \<Rightarrow> string \<Rightarrow> options \<Rightarrow> world
   \<Rightarrow> (js_error + json) \<times> world" where
  "attempt v e token base endpoint options w =
     (let url = base @ endpoint;
          headers = compose_headers token (opt_headers options)
      in if isNative e then
           (case native_data e (opt_body options) of
              Inl err \<Rightarrow> (Inl err, w)
            | Inr d \<Rightarrow>
                (case await_capacitor e (native_request url headers options d) w of
                   (Inl err, w') \<Rightarrow> (Inl err, w')
                 | (Inr res, w') \<Rightarrow>
                     if cap_status res \<ge> 400
                     then (case native_message v e (cap_data res) of
                             Inl err \<Rightarrow> (Inl err, w')
                           | Inr m \<Rightarrow>
                               (Inl (JsError ''Error'' (or_else m (generic_message v))), w'))
                     else (Inr (cap_data res), w')))
         else
           (case await_fetch_with_abort e (web_request url headers options) w of
              (Inl err, w') \<Rightarrow> (Inl err, w')
            | (Inr res, w') \<Rightarrow>
                (case res_json res of
                   Inl err \<Rightarrow> (Inl err, w')
                 | Inr data \<Rightarrow>
                     if \<not> ok res
                     then (case read_message e data of
                             Inl err \<Rightarrow> (Inl err, w')
                           | Inr m \<Rightarrow>
                               (Inl (JsError ''Error'' (or_else m (generic_message v))), w'))
                     else (Inr data, w'))))"

text \<open>
  \<^verbatim>\<open>apiCall(endpoint, options, retries)\<close>. The recursive call is the callback itself, so
  the retry runs with the same captured \<open>token\<close> and \<open>base\<close>.
\<close>

fun apiCall ::
  "variant \<Rightarrow> env \<Rightarrow> string option \<Rightarrow> string \<Rightarrow> string \<Rightarrow> options \<Rightarrow> nat \<Rightarrow> world
   \<Rightarrow> (js_error + json) \<times> world" where
  "apiCall v e token base endpoint options retries w =
     (case attempt v e token base endpoint options w of
        (Inr data, w') \<Rightarrow> (Inr data, w')
      | (Inl err, w') \<Rightarrow>
          if retries > 0 \<and> retryable v err
          then apiCall v e token base endpoint options (retries - 1) (sleep 2000 w')
          else (Inl err, w'))"

declare apiCall.simps [simp del]

definition apiCall_AuthContext ::
  "env \<Rightarrow> string option \<Rightarrow> string \<Rightarrow> string \<Rightarrow> options \<Rightarrow> nat \<Rightarrow> world
   \<Rightarrow> (js_error + json) \<times> world" where
  "apiCall_AuthContext e token API_BASE_URL endpoint options retries w =
     apiCall AuthContextJs e token API_BASE_URL endpoint options retries w"

definition apiCall_part000 ::
  "env \<Rightarrow> string option \<Rightarrow> string \<Rightarrow> string \<Rightarrow> options \<Rightarrow> nat \<Rightarrow> world
   \<Rightarrow> (js_error + json) \<times> world" where
  "apiCall_part000 e token capturedApiUrl endpoint options retries w =
     apiCall Part000 e token capturedApiUrl endpoint options retries w"

subsection \<open>Request executor with reactive failover, \<^verbatim>\<open>part_001\<close>\<close>

text \<open>
  \<^verbatim>\<open>config = { headers: {...}, ...options }\<close>: a \<^verbatim>\<open>headers\<close> property of \<open>options\<close>
  replaces the composed headers, also when its value is \<^verbatim>\<open>undefined\<close> (the request then
  has no headers of its own); method and body are passed on as given.
\<close>

definition config_request :: "string option \<Rightarrow> string \<Rightarrow> options \<Rightarrow> request" where
  "config_request token url options =
     \<lparr>req_url = url, req_method = opt_method options,
      req_headers = (case opt_headers options of
                       Some h \<Rightarrow> h
                     | None \<Rightarrow>
                         if opt_headers_present options then Map.empty
                         else compose_headers token (opt_headers options)),
      req_body = (case opt_body options of None \<Rightarrow> NoBody | Some b \<Rightarrow> Raw b),
      req_deadline = NoDeadline\<rparr>"

text \<open>
  \<^verbatim>\<open>tryApiCall(baseUrl)\<close>. Its fetch has no abort signal: when it never settles the
  call is suspended for good (\<open>None\<close>, with the state reached).
\<close>

definition tryApiCall ::
  "env \<Rightarrow> string option \<Rightarrow> string \<Rightarrow> options \<Rightarrow> string \<Rightarrow> world
   \<Rightarrow> (js_error + json) option \<times> world" where
  "tryApiCall e token endpoint options baseUrl w =
     (case await_fetch e (config_request token (baseUrl @ endpoint) options) w of
        (None, w') \<Rightarrow> (None, w')
      | (Some (Inl err), w') \<Rightarrow> (Some (Inl err), w')
      | (Some (Inr response), w') \<Rightarrow>
          (case res_json response of
             Inl err \<Rightarrow> (Some (Inl err), w')
           | Inr data \<Rightarrow>
               if \<not> ok response
               then (case read_message e data of
                       Inl err \<Rightarrow> (Some (Inl err), w')
                     | Inr m \<Rightarrow>
                         (Some (Inl (JsError ''Error'' (or_else m ''Something went wrong''))), w'))
               else (Some (Inr data), w')))"

definition apiCall_part001 ::
  "config \<Rightarrow> env \<Rightarrow> string option \<Rightarrow> string \<Rightarrow> string \<Rightarrow> options \<Rightarrow> world
   \<Rightarrow> (js_error + json) option \<times> world" where
  "apiCall_part001 cfg e token capturedApiUrl endpoint options w =
     (case tryApiCall e token endpoint options capturedApiUrl w of
        (None, w1) \<Rightarrow> (None, w1)
      | (Some (Inr result), w1) \<Rightarrow> (Some (Inr result), w1)
      | (Some (Inl error), w1) \<Rightarrow>
          if capturedApiUrl \<noteq> LOCAL_API_URL cfg then
            (case tryApiCall e token endpoint options (LOCAL_API_URL cfg)
                    (setCurrentApiUrl (LOCAL_API_URL cfg) w1) of
               (None, w2) \<Rightarrow> (None, w2)
             | (Some (Inr result), w2) \<Rightarrow> (Some (Inr result), w2)
             | (Some (Inl localError), w2) \<Rightarrow>
                 (Some (Inl (JsError ''Error''
                         (''Both production and local APIs failed. Production: ''
                          @ err_message error @ '', Local: '' @ err_message localError))),
                  setCurrentApiUrl (PRODUCTION_API_URL cfg) w2))
          else
            (case tryApiCall e token endpoint options (PRODUCTION_API_URL cfg)
                    (setCurrentApiUrl (PRODUCTION_API_URL cfg) w1) of
               (None, w2) \<Rightarrow> (None, w2)
             | (Some (Inr result), w2) \<Rightarrow> (Some (Inr result), w2)
             | (Some (Inl prodError), w2) \<Rightarrow>
                 (Some (Inl (JsError ''Error''
                         (''Both APIs failed. Local: '' @ err_message error
                          @ '', Production: '' @ err_message prodError))),
                  w2)))"

subsection \<open>Sequences of operations\<close>

text \<open>
  The operations that read or write the Active Endpoint, each run until it returns,
  throws or is suspended for good: the two probes, and the two executors with whatever
  token and endpoint value their callback captured.
\<close>

datatype operation =
    Probe000
  | Probe001
  | Call000 "string option" string string options nat
  | Call001 "string option" string string options

fun exec_op :: "config \<Rightarrow> env \<Rightarrow> world \<Rightarrow> operation \<Rightarrow> world" where
  "exec_op cfg e w Probe000 = snd (checkApiHealth_part000 cfg e w)"
| "exec_op cfg e w Probe001 = snd (checkApiHealth_part001 cfg e w)"
| "exec_op cfg e w (Call000 token cur endpoint options retries) =
     snd (apiCall_part000 e token cur endpoint options retries w)"
| "exec_op cfg e w (Call001 token cur endpoint options) =
     snd (apiCall_part001 cfg e token cur endpoint options w)"

definition run :: "config \<Rightarrow> env \<Rightarrow> operation list \<Rightarrow> world" where
  "run cfg e ops = foldl (exec_op cfg e) (initial_world cfg) ops"

subsection \<open>Notions used in the statements\<close>

text \<open>A probe answer counts as alive when the fetch resolved with an ok response.\<close>

definition healthy :: "js_error + fetch_response \<Rightarrow> bool" where
  "healthy r = (case r of Inl err \<Rightarrow> False | Inr res \<Rightarrow> ok res)"

text \<open>
  What one pass of \<open>attempt\<close> hands to the transport: the request, or the error thrown
  on the native path before anything is sent.
\<close>

definition outgoing :: "env \<Rightarrow> string option \<Rightarrow> string \<Rightarrow> string \<Rightarrow> options \<Rightarrow> js_error + request" where
  "outgoing e token base endpoint options =
     (if isNative e then
        (case native_data e (opt_body options) of
           Inl err \<Rightarrow> Inl err
         | Inr d \<Rightarrow> Inr (native_request (base @ endpoint)
                           (compose_headers token (opt_headers options)) options d))
      else Inr (web_request (base @ endpoint) (compose_headers token (opt_headers options)) options))"

text \<open>The error with which the selected transport rejects a request at a given time, if it does.\<close>

definition transport_error :: "env \<Rightarrow> nat \<Rightarrow> request \<Rightarrow> js_error option" where
  "transport_error e n req =
     (if isNative e
      then (case capacitorHttp e n req of Inl err \<Rightarrow> Some err | Inr res \<Rightarrow> None)
      else (case fetch e n req of Inl err \<Rightarrow> Some err | Inr res \<Rightarrow> None))"

definition after_dispatch :: "request \<Rightarrow> world \<Rightarrow> world" where
  "after_dispatch req w = w\<lparr>tick := Suc (tick w), trace := trace w @ [Dispatch req]\<rparr>"

text \<open>The requests handed to a transport between an earlier world and a later one.\<close>

definition new_requests :: "world \<Rightarrow> world \<Rightarrow> request list" where
  "new_requests w w' = drop (length (dispatched (trace w))) (dispatched (trace w'))"

text \<open>
  The dispatched headers in the words of the specification: the caller's value where the
  caller supplies the key; otherwise \<^verbatim>\<open>Authorization: Bearer <token>\<close> exactly when a
  token is held, \<^verbatim>\<open>Content-Type: application/json\<close>, and nothing else.
\<close>

definition headers_spec :: "string option \<Rightarrow> obj option \<Rightarrow> obj" where
  "headers_spec token caller k =
     (case (case caller of None \<Rightarrow> None | Some h \<Rightarrow> h k) of
        Some x \<Rightarrow> Some x
      | None \<Rightarrow>
          if k = ''Authorization''
          then (case token of
                  None \<Rightarrow> None
                | Some t \<Rightarrow> if t = [] then None else Some (''Bearer '' @ t))
          else if k = ''Content-Type'' then Some ''application/json''
          else None)"

subsection \<open>Concrete configurations and environments\<close>

text \<open>The default base URLs of the source.\<close>

definition default_config :: config where
  "default_config =
     \<lparr>PRODUCTION_API_URL = ''https://yoga-pose-detection-1.onrender.com/api'',
      LOCAL_API_URL = ''http://localhost:5000/api''\<rparr>"

definition failed_to_fetch :: js_error where
  "failed_to_fetch = JsError ''TypeError'' ''Failed to fetch''"

definition unexpected_end :: js_error where
  "unexpected_end = JsError ''SyntaxError'' ''Unexpected end of JSON input''"

definition load_failed :: js_error where
  "load_failed = JsError ''TypeError'' ''Load failed''"

definition aborted :: js_error where
  "aborted = JsError ''AbortError'' ''The operation was aborted.''"

definition null_read :: string where
  "null_read = ''Cannot read properties of null''"

text \<open>A browser with no reachable backend: every fetch rejects.\<close>

definition env_unreachable :: env where
  "env_unreachable =
     \<lparr>isNative = False,
      fetch = (\<lambda>n req. Inl failed_to_fetch),
      settles = (\<lambda>n req. True),
      capacitorHttp = (\<lambda>n req. Inl failed_to_fetch),
      JSON_parse = (\<lambda>s. Inl unexpected_end),
      null_read_message = null_read\<rparr>"

text \<open>A browser whose first fetch rejects and whose later fetches are answered with 200.\<close>

definition env_waking_up :: env where
  "env_waking_up =
     \<lparr>isNative = False,
      fetch = (\<lambda>n req. if n = 0 then Inl failed_to_fetch
                        else Inr \<lparr>res_status = 200, res_json = Inr (JsonObject [''success'' \<mapsto> ''true''])\<rparr>),
      settles = (\<lambda>n req. True),
      capacitorHttp = (\<lambda>n req. Inl failed_to_fetch),
      JSON_parse = (\<lambda>s. Inl unexpected_end),
      null_read_message = null_read\<rparr>"

definition get_progress :: options where
  "get_progress =
     \<lparr>opt_method = None, opt_headers = None, opt_headers_present = False, opt_body = None\<rparr>"

text \<open>A backend that rejects every request with status 400 and a message.\<close>

definition env_rejecting :: "string \<Rightarrow> env" where
  "env_rejecting msg =
     \<lparr>isNative = False,
      fetch = (\<lambda>n req. Inr \<lparr>res_status = 400, res_json = Inr (JsonObject [''message'' \<mapsto> msg])\<rparr>),
      settles = (\<lambda>n req. True),
      capacitorHttp = (\<lambda>n req. Inl failed_to_fetch),
      JSON_parse = (\<lambda>s. Inl unexpected_end),
      null_read_message = null_read\<rparr>"

text \<open>A browser that reaches the local backend only.\<close>

definition env_local_only :: env where
  "env_local_only =
     \<lparr>isNative = False,
      fetch = (\<lambda>n req. if starts_with (req_url req) ''http://localhost:5000/api''
                        then Inr \<lparr>res_status = 200, res_json = Inr (JsonObject [''success'' \<mapsto> ''true''])\<rparr>
                        else Inl failed_to_fetch),
      settles = (\<lambda>n req. True),
      capacitorHttp = (\<lambda>n req. Inl failed_to_fetch),
      JSON_parse = (\<lambda>s. Inl unexpected_end),
      null_read_message = null_read\<rparr>"

text \<open>
  The native shell with a reachable backend, and a \<^verbatim>\<open>JSON.parse\<close> that accepts
  \<^verbatim>\<open>{}\<close> only and whose error message quotes the text it could not parse.
\<close>

definition env_native :: env where
  "env_native =
     \<lparr>isNative = True,
      fetch = (\<lambda>n req. Inl failed_to_fetch),
      settles = (\<lambda>n req. True),
      capacitorHttp = (\<lambda>n req. Inr \<lparr>cap_status = 200,
                                  cap_data = JsonObject [''success'' \<mapsto> ''true'']\<rparr>),
      JSON_parse = (\<lambda>s. if s = ''{}'' then Inr (JsonObject Map.empty)
                         else Inl (JsError ''SyntaxError''
                                     (''JSON Parse error: Unexpected identifier '' @ s))),
      null_read_message = null_read\<rparr>"

text \<open>
  A browser that reports an unreachable host as \<^verbatim>\<open>TypeError: Load failed\<close>, with no
  backend reachable; and the same browser with a backend that is up from the second
  request on.
\<close>

definition env_load_failed :: env where
  "env_load_failed =
     \<lparr>isNative = False,
      fetch = (\<lambda>n req. Inl load_failed),
      settles = (\<lambda>n req. True),
      capacitorHttp = (\<lambda>n req. Inl load_failed),
      JSON_parse = (\<lambda>s. Inl unexpected_end),
      null_read_message = null_read\<rparr>"

definition env_load_failed_once :: env where
  "env_load_failed_once =
     \<lparr>isNative = False,
      fetch = (\<lambda>n req. if n = 0 then Inl load_failed
                        else Inr \<lparr>res_status = 200,
                                 res_json = Inr (JsonObject [''success'' \<mapsto> ''true''])\<rparr>),
      settles = (\<lambda>n req. True),
      capacitorHttp = (\<lambda>n req. Inl load_failed),
      JSON_parse = (\<lambda>s. Inl unexpected_end),
      null_read_message = null_read\<rparr>"

text \<open>
  A production backend that accepts the health request and never answers it, beside a
  local backend that answers at once; and a network on which nothing ever answers. A
  fetch with an abort timer ends in an \<^verbatim>\<open>AbortError\<close> where no answer comes.
\<close>

definition env_primary_silent :: env where
  "env_primary_silent =
     \<lparr>isNative = False,
      fetch = (\<lambda>n req. if starts_with (req_url req) ''http://localhost:5000/api''
                        then Inr \<lparr>res_status = 200,
                                 res_json = Inr (JsonObject [''status'' \<mapsto> ''OK''])\<rparr>
                        else Inl aborted),
      settles = (\<lambda>n req. starts_with (req_url req) ''http://localhost:5000/api''),
      capacitorHttp = (\<lambda>n req. Inl aborted),
      JSON_parse = (\<lambda>s. Inl unexpected_end),
      null_read_message = null_read\<rparr>"

definition env_silent :: env where
  "env_silent =
     \<lparr>isNative = False,
      fetch = (\<lambda>n req. Inl aborted),
      settles = (\<lambda>n req. False),
      capacitorHttp = (\<lambda>n req. Inl aborted),
      JSON_parse = (\<lambda>s. Inl unexpected_end),
      null_read_message = null_read\<rparr>"

definition post_body :: "string \<Rightarrow> options" where
  "post_body b =
     \<lparr>opt_method = Some ''POST'', opt_headers = None, opt_headers_present = False,
      opt_body = Some b\<rparr>"

text \<open>
  A retry scenario for \<^verbatim>\<open>part_000\<close>: the callback captured the production URL, its
  first attempt failed, and while it waits for the retry a probe runs and selects the local
  backend.
\<close>

definition world_after_first_failure :: world where
  "world_after_first_failure =
     snd (attempt Part000 env_local_only None ''https://yoga-pose-detection-1.onrender.com/api''
            ''/progress'' get_progress (initial_world default_config))"

definition world_at_retry :: world where
  "world_at_retry =
     snd (checkApiHealth_part000 default_config env_local_only (sleep 2000 world_after_first_failure))"

section \<open>Properties\<close>

subsection \<open>The log\<close>

lemma dispatched_append [simp]: "dispatched (xs @ ys) = dispatched xs @ dispatched ys"
  by (induction xs rule: dispatched.induct) simp_all

lemma sleeps_append [simp]: "sleeps (xs @ ys) = sleeps xs @ sleeps ys"
  by (induction xs rule: sleeps.induct) simp_all

subsection \<open>The probes\<close>

text \<open>
  The probe of \<^verbatim>\<open>part_000\<close> follows the priority order for every environment: it asks
  the primary candidate's \<^verbatim>\<open>/health\<close> with an abort after 6000 ms; an alive answer
  selects production and nothing else is requested; otherwise (rejection, abort, status
  not ok) it asks the fallback with an abort after 3000 ms and ends in local or offline.
\<close>

lemma probe000_char:
  "checkApiHealth_part000 cfg e w =
     (let p = \<lparr>req_url = PRODUCTION_API_URL cfg @ ''/health'', req_method = Some ''GET'',
               req_headers = Map.empty, req_body = NoBody, req_deadline = AbortAfter 6000\<rparr>;
          f = \<lparr>req_url = LOCAL_API_URL cfg @ ''/health'', req_method = Some ''GET'',
               req_headers = Map.empty, req_body = NoBody, req_deadline = AbortAfter 3000\<rparr>
      in if healthy (fetch e (tick w) p)
         then (Inr Production,
               w\<lparr>currentApiUrl := PRODUCTION_API_URL cfg, apiStatus := Production,
                 tick := tick w + 1, trace := trace w @ [Dispatch p]\<rparr>)
         else if healthy (fetch e (tick w + 1) f)
         then (Inr Local,
               w\<lparr>currentApiUrl := LOCAL_API_URL cfg, apiStatus := Local,
                 tick := tick w + 2, trace := trace w @ [Dispatch p, Dispatch f]\<rparr>)
         else (Inr Offline,
               w\<lparr>apiStatus := Offline, tick := tick w + 2,
                 trace := trace w @ [Dispatch p, Dispatch f]\<rparr>))"
  by (simp add: checkApiHealth_part000_def tryHealth_def await_fetch_with_abort_def healthy_def
      health_request_def setApiStatus_def setCurrentApiUrl_def Let_def
      split: sum.splits prod.splits)

lemma probe000_returns:
  "\<exists>s. fst (checkApiHealth_part000 cfg e w) = Inr s
      \<and> apiStatus (snd (checkApiHealth_part000 cfg e w)) = s
      \<and> s \<in> {Production, Local, Offline}"
  by (simp add: probe000_char Let_def)

text \<open>
  The probe of \<^verbatim>\<open>part_001\<close> does the same as long as its fetches settle. A health
  request that never settles leaves it suspended, with the status at checking and the
  Active Endpoint as it was; when this is the primary request, the fallback is never asked.
\<close>

lemma probe001_char:
  "checkApiHealth_part001 cfg e w =
     (let p = \<lparr>req_url = PRODUCTION_API_URL cfg @ ''/health'', req_method = Some ''GET'',
               req_headers = Map.empty, req_body = NoBody, req_deadline = TimeoutOption 5000\<rparr>;
          f = \<lparr>req_url = LOCAL_API_URL cfg @ ''/health'', req_method = Some ''GET'',
               req_headers = Map.empty, req_body = NoBody, req_deadline = TimeoutOption 3000\<rparr>
      in if \<not> settles e (tick w) p
         then (None,
               w\<lparr>apiStatus := Checking, tick := tick w + 1, trace := trace w @ [Dispatch p]\<rparr>)
         else if healthy (fetch e (tick w) p)
         then (Some (Inr Production),
               w\<lparr>currentApiUrl := PRODUCTION_API_URL cfg, apiStatus := Production,
                 tick := tick w + 1, trace := trace w @ [Dispatch p]\<rparr>)
         else if \<not> settles e (tick w + 1) f
         then (None,
               w\<lparr>apiStatus := Checking, tick := tick w + 2,
                 trace := trace w @ [Dispatch p, Dispatch f]\<rparr>)
         else if healthy (fetch e (tick w + 1) f)
         then (Some (Inr Local),
               w\<lparr>currentApiUrl := LOCAL_API_URL cfg, apiStatus := Local,
                 tick := tick w + 2, trace := trace w @ [Dispatch p, Dispatch f]\<rparr>)
         else (Some (Inr Offline),
               w\<lparr>apiStatus := Offline, tick := tick w + 2,
                 trace := trace w @ [Dispatch p, Dispatch f]\<rparr>))"
  by (simp add: checkApiHealth_part001_def checkApiHealth_part001_body_def await_fetch_def
      healthy_def health_request_def setApiStatus_def setCurrentApiUrl_def Let_def
      split: sum.splits prod.splits)


text \<open>
  Claim C1. The probe is to try the primary candidate's \<^verbatim>\<open>/health\<close> with its timeout
  and to fall back to the second candidate when the primary fails or times out. The probe
  of \<^verbatim>\<open>part_000\<close> does (\<open>probe000_char\<close>). The probe of \<^verbatim>\<open>part_001\<close> passes
  \<^verbatim>\<open>timeout: 5000\<close> to \<^verbatim>\<open>fetch\<close>, which has no such option, and sets no abort
  timer: with a production backend that never answers the health request and a local
  backend that is up, it dispatches the primary request and nothing more, never asks the
  fallback and never returns, where \<^verbatim>\<open>part_000\<close> selects the local backend.
\<close>

theorem probe001_fallback_never_asked:
  "checkApiHealth_part001 default_config env_primary_silent (initial_world default_config)
     = (None,
        \<lparr>currentApiUrl = ''https://yoga-pose-detection-1.onrender.com/api'',
         apiStatus = Checking, tick = 1,
         trace = [Dispatch \<lparr>req_url = ''https://yoga-pose-detection-1.onrender.com/api/health'',
                            req_method = Some ''GET'', req_headers = Map.empty,
                            req_body = NoBody, req_deadline = TimeoutOption 5000\<rparr>]\<rparr>)
   \<and> checkApiHealth_part000 default_config env_primary_silent (initial_world default_config)
     = (Inr Local,
        \<lparr>currentApiUrl = ''http://localhost:5000/api'', apiStatus = Local, tick = 2,
         trace = [Dispatch \<lparr>req_url = ''https://yoga-pose-detection-1.onrender.com/api/health'',
                            req_method = Some ''GET'', req_headers = Map.empty,
                            req_body = NoBody, req_deadline = AbortAfter 6000\<rparr>,
                  Dispatch \<lparr>req_url = ''http://localhost:5000/api/health'',
                            req_method = Some ''GET'', req_headers = Map.empty,
                            req_body = NoBody, req_deadline = AbortAfter 3000\<rparr>]\<rparr>)"
  by (simp add: probe000_char probe001_char Let_def healthy_def ok_def env_primary_silent_def
      default_config_def initial_world_def starts_with_def aborted_def)

text \<open>
  Claim C3. The probe is to return, without throwing, with a status among production,
  local and offline, whatever the two health requests produce, a timeout included. The
  probe of \<^verbatim>\<open>part_000\<close> does (\<open>probe000_returns\<close>). The probe of \<^verbatim>\<open>part_001\<close> has no
  working timeout: on a network where nothing answers it never returns and the status
  stays at checking, where \<^verbatim>\<open>part_000\<close> returns offline.
\<close>

theorem probe001_left_at_checking:
  "fst (checkApiHealth_part001 default_config env_silent (initial_world default_config)) = None
   \<and> apiStatus (snd (checkApiHealth_part001 default_config env_silent
                       (initial_world default_config))) = Checking
   \<and> fst (checkApiHealth_part000 default_config env_silent (initial_world default_config))
       = Inr Offline
   \<and> apiStatus (snd (checkApiHealth_part000 default_config env_silent
                       (initial_world default_config))) = Offline"
  by (simp add: probe000_char probe001_char Let_def healthy_def env_silent_def aborted_def)












subsection \<open>The retrying executor\<close>

lemma apiCall_success:
  "attempt v e token base endpoint options w = (Inr d, w1)
   \<Longrightarrow> apiCall v e token base endpoint options retries w = (Inr d, w1)"
  by (subst apiCall.simps) simp

lemma apiCall_fail_stop:
  "attempt v e token base endpoint options w = (Inl err, w1) \<Longrightarrow> \<not> (retries > 0 \<and> retryable v err)
   \<Longrightarrow> apiCall v e token base endpoint options retries w = (Inl err, w1)"
  by (subst apiCall.simps) auto

lemma apiCall_fail_retry:
  "attempt v e token base endpoint options w = (Inl err, w1) \<Longrightarrow> retries > 0 \<Longrightarrow> retryable v err
   \<Longrightarrow> apiCall v e token base endpoint options retries w
       = apiCall v e token base endpoint options (retries - 1) (sleep 2000 w1)"
  by (subst apiCall.simps) simp

lemma attempt_not_sent:
  "outgoing e token base endpoint options = Inl err
   \<Longrightarrow> attempt v e token base endpoint options w = (Inl err, w)"
  by (auto simp: outgoing_def attempt_def Let_def split: if_splits sum.splits)

lemma attempt_sent:
  "outgoing e token base endpoint options = Inr req
   \<Longrightarrow> snd (attempt v e token base endpoint options w) = after_dispatch req w"
  by (auto simp: outgoing_def attempt_def Let_def await_fetch_with_abort_def await_capacitor_def after_dispatch_def
      split: if_splits sum.splits prod.splits)

lemma attempt_transport_error:
  "outgoing e token base endpoint options = Inr req \<Longrightarrow> transport_error e (tick w) req = Some err
   \<Longrightarrow> attempt v e token base endpoint options w = (Inl err, after_dispatch req w)"
  by (auto simp: outgoing_def attempt_def Let_def await_fetch_with_abort_def await_capacitor_def after_dispatch_def
      transport_error_def split: if_splits sum.splits prod.splits)

lemma apiCall_never_sent:
  "outgoing e token base endpoint options = Inl err
   \<Longrightarrow> fst (apiCall v e token base endpoint options retries w) = Inl err
     \<and> dispatched (trace (snd (apiCall v e token base endpoint options retries w))) = dispatched (trace w)
     \<and> tick (snd (apiCall v e token base endpoint options retries w)) = tick w"
proof (induction retries arbitrary: w)
  case 0
  then show ?case by (simp add: apiCall_fail_stop [OF attempt_not_sent])
next
  case (Suc r)
  have a: "attempt v e token base endpoint options w = (Inl err, w)"
    using Suc.prems by (rule attempt_not_sent)
  show ?case
  proof (cases "retryable v err")
    case True
    have "apiCall v e token base endpoint options (Suc r) w
          = apiCall v e token base endpoint options r (sleep 2000 w)"
      using apiCall_fail_retry [OF a _ True, of "Suc r"] by simp
    then show ?thesis using Suc.IH [OF Suc.prems, of "sleep 2000 w"] by (simp add: sleep_def)
  next
    case False
    then show ?thesis by (simp add: apiCall_fail_stop [OF a])
  qed
qed

lemma apiCall_same_request:
  "outgoing e token base endpoint options = Inr req
   \<Longrightarrow> \<exists>n. 0 < n \<and> n \<le> Suc retries
        \<and> dispatched (trace (snd (apiCall v e token base endpoint options retries w)))
            = dispatched (trace w) @ replicate n req"
proof (induction retries arbitrary: w)
  case 0
  obtain r w1 where a: "attempt v e token base endpoint options w = (r, w1)" by fastforce
  have w1: "w1 = after_dispatch req w" using attempt_sent [OF 0, of v w] a by simp
  have "apiCall v e token base endpoint options 0 w = (r, w1)"
    using a by (cases r) (simp_all add: apiCall_success apiCall_fail_stop)
  then have "dispatched (trace (snd (apiCall v e token base endpoint options 0 w)))
             = dispatched (trace w) @ replicate 1 req"
    by (simp add: w1 after_dispatch_def)
  then show ?case by (intro exI [of _ 1]) simp
next
  case (Suc k)
  obtain r w1 where a: "attempt v e token base endpoint options w = (r, w1)" by fastforce
  have w1: "w1 = after_dispatch req w" using attempt_sent [OF Suc.prems, of v w] a by simp
  show ?case
  proof (cases "\<exists>err. r = Inl err \<and> retryable v err")
    case True
    then obtain err where r: "r = Inl err" and t: "retryable v err" by blast
    have step: "apiCall v e token base endpoint options (Suc k) w
          = apiCall v e token base endpoint options k (sleep 2000 w1)"
      using apiCall_fail_retry [OF a [unfolded r] _ t, of "Suc k"] by simp
    obtain n where n: "0 < n" "n \<le> Suc k"
      "dispatched (trace (snd (apiCall v e token base endpoint options k (sleep 2000 w1))))
       = dispatched (trace (sleep 2000 w1)) @ replicate n req"
      using Suc.IH [OF Suc.prems, of "sleep 2000 w1"] by blast
    have "dispatched (trace (snd (apiCall v e token base endpoint options (Suc k) w)))
          = dispatched (trace w) @ replicate (Suc n) req"
      using n(3) by (simp add: step w1 sleep_def after_dispatch_def replicate_append_same)
    then show ?thesis using n(2) by (intro exI [of _ "Suc n"]) simp
  next
    case False
    have "apiCall v e token base endpoint options (Suc k) w = (r, w1)"
      using a False by (cases r) (simp_all add: apiCall_success apiCall_fail_stop)
    then have "dispatched (trace (snd (apiCall v e token base endpoint options (Suc k) w)))
             = dispatched (trace w) @ replicate 1 req"
      by (simp add: w1 after_dispatch_def)
    then show ?thesis by (intro exI [of _ 1]) simp
  qed
qed

lemma apiCall_always_transient:
  assumes out: "outgoing e token base endpoint options = Inr req"
    and tr: "\<forall>n. \<exists>err. transport_error e n req = Some err \<and> retryable v err"
  shows "\<exists>err. fst (apiCall v e token base endpoint options retries w) = Inl err
           \<and> transport_error e (tick w + retries) req = Some err"
    and "dispatched (trace (snd (apiCall v e token base endpoint options retries w)))
           = dispatched (trace w) @ replicate (Suc retries) req"
    and "sleeps (trace (snd (apiCall v e token base endpoint options retries w)))
           = sleeps (trace w) @ replicate retries 2000"
    and "tick (snd (apiCall v e token base endpoint options retries w)) = tick w + Suc retries"
proof -
  have "(\<exists>err. fst (apiCall v e token base endpoint options retries w) = Inl err
           \<and> transport_error e (tick w + retries) req = Some err)
      \<and> dispatched (trace (snd (apiCall v e token base endpoint options retries w)))
           = dispatched (trace w) @ replicate (Suc retries) req
      \<and> sleeps (trace (snd (apiCall v e token base endpoint options retries w)))
           = sleeps (trace w) @ replicate retries 2000
      \<and> tick (snd (apiCall v e token base endpoint options retries w)) = tick w + Suc retries"
  proof (induction retries arbitrary: w)
    case 0
    obtain err where err: "transport_error e (tick w) req = Some err" using tr by blast
    have a: "attempt v e token base endpoint options w = (Inl err, after_dispatch req w)"
      using attempt_transport_error [OF out err] .
    show ?case using err by (simp add: apiCall_fail_stop [OF a] after_dispatch_def)
  next
    case (Suc k)
    obtain err where err: "transport_error e (tick w) req = Some err" and t: "retryable v err"
      using tr by blast
    have a: "attempt v e token base endpoint options w = (Inl err, after_dispatch req w)"
      using attempt_transport_error [OF out err] .
    have step: "apiCall v e token base endpoint options (Suc k) w
          = apiCall v e token base endpoint options k (sleep 2000 (after_dispatch req w))"
      using apiCall_fail_retry [OF a _ t, of "Suc k"] by simp
    show ?case using Suc.IH [of "sleep 2000 (after_dispatch req w)"]
      by (simp add: step sleep_def after_dispatch_def replicate_append_same)
  qed
  then show "\<exists>err. fst (apiCall v e token base endpoint options retries w) = Inl err
           \<and> transport_error e (tick w + retries) req = Some err"
    and "dispatched (trace (snd (apiCall v e token base endpoint options retries w)))
           = dispatched (trace w) @ replicate (Suc retries) req"
    and "sleeps (trace (snd (apiCall v e token base endpoint options retries w)))
           = sleeps (trace w) @ replicate retries 2000"
    and "tick (snd (apiCall v e token base endpoint options retries w)) = tick w + Suc retries"
    by blast+
qed

lemma apiCall_keeps_state:
  "currentApiUrl (snd (apiCall v e token base endpoint options retries w)) = currentApiUrl w
   \<and> apiStatus (snd (apiCall v e token base endpoint options retries w)) = apiStatus w"
proof (induction retries arbitrary: w)
  case 0
  obtain r w1 where a: "attempt v e token base endpoint options w = (r, w1)" by fastforce
  have k: "currentApiUrl w1 = currentApiUrl w \<and> apiStatus w1 = apiStatus w"
    using a by (auto simp: attempt_def Let_def await_fetch_with_abort_def await_capacitor_def
        split: if_splits sum.splits prod.splits)
  have "apiCall v e token base endpoint options 0 w = (r, w1)"
    using a by (cases r) (simp_all add: apiCall_success apiCall_fail_stop)
  then show ?case using k by simp
next
  case (Suc k)
  obtain r w1 where a: "attempt v e token base endpoint options w = (r, w1)" by fastforce
  have k: "currentApiUrl w1 = currentApiUrl w \<and> apiStatus w1 = apiStatus w"
    using a by (auto simp: attempt_def Let_def await_fetch_with_abort_def await_capacitor_def
        split: if_splits sum.splits prod.splits)
  show ?case
  proof (cases "\<exists>err. r = Inl err \<and> retryable v err")
    case True
    then obtain err where r: "r = Inl err" and t: "retryable v err" by blast
    have step: "apiCall v e token base endpoint options (Suc k) w
          = apiCall v e token base endpoint options k (sleep 2000 w1)"
      using apiCall_fail_retry [OF a [unfolded r] _ t, of "Suc k"] by simp
    show ?thesis using Suc.IH [of "sleep 2000 w1"] k by (simp add: step sleep_def)
  next
    case False
    have "apiCall v e token base endpoint options (Suc k) w = (r, w1)"
      using a False by (cases r) (simp_all add: apiCall_success apiCall_fail_stop)
    then show ?thesis using k by simp
  qed
qed

text \<open>
  The retry budget is respected for the failures that the executor recognises. When every
  request of a call is rejected by the transport with an error that passes the retry test
  of the \<^verbatim>\<open>catch\<close> block, the executor makes exactly \<open>maxRetries + 1\<close> attempts,
  waits between them, and then surfaces the error of the last attempt; when the first
  attempt fails with such an error and the second succeeds, a call with a budget of 2
  returns the payload of the second attempt.
\<close>

lemma retry_budget_when_retryable:
  "(outgoing e token base endpoint options = Inr req
      \<and> (\<forall>n. \<exists>err. transport_error e n req = Some err \<and> retryable v err)
    \<longrightarrow> (\<exists>err. fst (apiCall v e token base endpoint options maxRetries w) = Inl err
               \<and> transport_error e (tick w + maxRetries) req = Some err)
        \<and> dispatched (trace (snd (apiCall v e token base endpoint options maxRetries w)))
            = dispatched (trace w) @ replicate (maxRetries + 1) req
        \<and> sleeps (trace (snd (apiCall v e token base endpoint options maxRetries w)))
            = sleeps (trace w) @ replicate maxRetries 2000)
   \<and> (attempt v e token base endpoint options w = (Inl err1, w1) \<and> retryable v err1
      \<and> attempt v e token base endpoint options (sleep 2000 w1) = (Inr payload, w2)
    \<longrightarrow> apiCall v e token base endpoint options 2 w = (Inr payload, w2))"
proof (intro conjI impI)
  assume h: "outgoing e token base endpoint options = Inr req
      \<and> (\<forall>n. \<exists>err. transport_error e n req = Some err \<and> retryable v err)"
  then have out: "outgoing e token base endpoint options = Inr req"
    and tr: "\<forall>n. \<exists>err. transport_error e n req = Some err \<and> retryable v err"
    by blast+
  show "\<exists>err. fst (apiCall v e token base endpoint options maxRetries w) = Inl err
               \<and> transport_error e (tick w + maxRetries) req = Some err"
    using apiCall_always_transient(1) [OF out tr] .
  show "dispatched (trace (snd (apiCall v e token base endpoint options maxRetries w)))
            = dispatched (trace w) @ replicate (maxRetries + 1) req"
    using apiCall_always_transient(2) [OF out tr, of maxRetries w] by simp
  show "sleeps (trace (snd (apiCall v e token base endpoint options maxRetries w)))
            = sleeps (trace w) @ replicate maxRetries 2000"
    using apiCall_always_transient(3) [OF out tr] .
next
  assume h: "attempt v e token base endpoint options w = (Inl err1, w1) \<and> retryable v err1
      \<and> attempt v e token base endpoint options (sleep 2000 w1) = (Inr payload, w2)"
  then have a1: "attempt v e token base endpoint options w = (Inl err1, w1)"
    and t: "retryable v err1"
    and a2: "attempt v e token base endpoint options (sleep 2000 w1) = (Inr payload, w2)"
    by blast+
  have "apiCall v e token base endpoint options 2 w
        = apiCall v e token base endpoint options (2 - 1) (sleep 2000 w1)"
    using apiCall_fail_retry [OF a1 _ t, of 2] by simp
  then show "apiCall v e token base endpoint options 2 w = (Inr payload, w2)"
    using apiCall_success [OF a2] by simp
qed

lemma failed_to_fetch_retryable: "retryable v failed_to_fetch"
  by (cases v) (simp_all add: retryable_def failed_to_fetch_def starts_with_def)

lemma retry_budget_example:
  "length (dispatched (trace (snd (apiCall Part000 env_unreachable None ''http://localhost:5000/api''
              ''/progress'' get_progress 2 (initial_world default_config))))) = 3
   \<and> sleeps (trace (snd (apiCall Part000 env_unreachable None ''http://localhost:5000/api''
              ''/progress'' get_progress 2 (initial_world default_config)))) = [2000, 2000]
   \<and> fst (apiCall AuthContextJs env_waking_up None ''http://localhost:5000/api''
              ''/progress'' get_progress 2 (initial_world default_config))
       = Inr (JsonObject [''success'' \<mapsto> ''true''])"
proof -
  let ?w = "initial_world default_config"
  let ?req = "web_request (''http://localhost:5000/api'' @ ''/progress'')
                (compose_headers None (opt_headers get_progress)) get_progress"
  have out: "outgoing env_unreachable None ''http://localhost:5000/api'' ''/progress'' get_progress
             = Inr ?req"
    by (simp add: outgoing_def env_unreachable_def)
  have tr: "\<forall>n. \<exists>err. transport_error env_unreachable n ?req = Some err \<and> retryable Part000 err"
    by (simp add: transport_error_def env_unreachable_def failed_to_fetch_retryable)
  have a1: "attempt AuthContextJs env_waking_up None ''http://localhost:5000/api'' ''/progress''
              get_progress ?w = (Inl failed_to_fetch, after_dispatch ?req ?w)"
    by (simp add: attempt_def env_waking_up_def await_fetch_with_abort_def after_dispatch_def Let_def
        initial_world_def web_request_def)
  have a2: "attempt AuthContextJs env_waking_up None ''http://localhost:5000/api'' ''/progress''
              get_progress (sleep 2000 (after_dispatch ?req ?w))
            = (Inr (JsonObject [''success'' \<mapsto> ''true'']), after_dispatch ?req (sleep 2000 (after_dispatch ?req ?w)))"
    by (simp add: attempt_def env_waking_up_def await_fetch_with_abort_def after_dispatch_def Let_def
        initial_world_def web_request_def sleep_def ok_def)
  have two: "replicate 2 (2000::nat) = [2000, 2000]"
    by (simp add: numeral_2_eq_2)
  show ?thesis
    using retry_budget_when_retryable [where e = env_unreachable and token = None
        and base = "''http://localhost:5000/api''" and endpoint = "''/progress''"
        and options = get_progress and req = ?req and v = Part000 and maxRetries = 2 and w = ?w]
      retry_budget_when_retryable [where e = env_waking_up and token = None
        and base = "''http://localhost:5000/api''" and endpoint = "''/progress''"
        and options = get_progress and v = AuthContextJs and w = ?w
        and ?err1.0 = failed_to_fetch and ?w1.0 = "after_dispatch ?req ?w"
        and payload = "JsonObject [''success'' \<mapsto> ''true'']"
        and ?w2.0 = "after_dispatch ?req (sleep 2000 (after_dispatch ?req ?w))"]
      out tr a1 a2 failed_to_fetch_retryable [of AuthContextJs]
    by (simp add: initial_world_def two)
qed

lemma load_failed_not_retryable: "\<not> retryable v load_failed"
  by (cases v) (simp_all add: retryable_def load_failed_def starts_with_def)

lemma attempt_load_failed:
  "attempt v env_load_failed None ''http://localhost:5000/api'' ''/progress'' get_progress x
   = (Inl load_failed,
      after_dispatch (web_request ''http://localhost:5000/api/progress''
                        (compose_headers None None) get_progress) x)"
  by (simp add: attempt_def env_load_failed_def await_fetch_with_abort_def after_dispatch_def
      Let_def get_progress_def)

lemma attempt_load_failed_once:
  "attempt v env_load_failed_once None ''http://localhost:5000/api'' ''/progress'' get_progress
     (initial_world default_config)
   = (Inl load_failed,
      after_dispatch (web_request ''http://localhost:5000/api/progress''
                        (compose_headers None None) get_progress) (initial_world default_config))"
  by (simp add: attempt_def env_load_failed_once_def await_fetch_with_abort_def after_dispatch_def
      Let_def get_progress_def initial_world_def)

text \<open>
  Claim C2. A call whose every attempt fails with a transient error is to make
  \<open>maxRetries + 1\<close> attempts, and a call that fails transiently once and then succeeds
  is to return the payload. The executor recognises a transient error by the words
  \<^verbatim>\<open>fetch\<close> and \<^verbatim>\<open>network\<close> in its message (or the name \<^verbatim>\<open>AbortError\<close>), so a
  network failure reported in other words is not retried: where an unreachable host is
  reported as \<^verbatim>\<open>TypeError: Load failed\<close>, a call with a budget of 2 makes one
  attempt, waits for nothing and surfaces the error, in \<^verbatim>\<open>part_000\<close> and in
  \<^verbatim>\<open>AuthContext.js\<close>; and it does so too when the backend is up from the second
  request on.
\<close>

theorem load_failed_not_retried:
  "fst (apiCall_part000 env_load_failed None ''http://localhost:5000/api'' ''/progress''
          get_progress 2 (initial_world default_config))
     = Inl (JsError ''TypeError'' ''Load failed'')
   \<and> length (dispatched (trace (snd (apiCall_part000 env_load_failed None
          ''http://localhost:5000/api'' ''/progress'' get_progress 2
          (initial_world default_config))))) = 1
   \<and> sleeps (trace (snd (apiCall_part000 env_load_failed None
          ''http://localhost:5000/api'' ''/progress'' get_progress 2
          (initial_world default_config)))) = []
   \<and> fst (apiCall_AuthContext env_load_failed None ''http://localhost:5000/api'' ''/progress''
          get_progress 2 (initial_world default_config))
     = Inl (JsError ''TypeError'' ''Load failed'')
   \<and> length (dispatched (trace (snd (apiCall_AuthContext env_load_failed None
          ''http://localhost:5000/api'' ''/progress'' get_progress 2
          (initial_world default_config))))) = 1
   \<and> fst (apiCall_part000 env_load_failed_once None ''http://localhost:5000/api'' ''/progress''
          get_progress 2 (initial_world default_config))
     = Inl (JsError ''TypeError'' ''Load failed'')
   \<and> length (dispatched (trace (snd (apiCall_part000 env_load_failed_once None
          ''http://localhost:5000/api'' ''/progress'' get_progress 2
          (initial_world default_config))))) = 1"
proof -
  have stop: "apiCall v env_load_failed None ''http://localhost:5000/api'' ''/progress''
                get_progress 2 (initial_world default_config)
              = (Inl load_failed,
                 after_dispatch (web_request ''http://localhost:5000/api/progress''
                        (compose_headers None None) get_progress) (initial_world default_config))"
    for v
    using apiCall_fail_stop [OF attempt_load_failed] load_failed_not_retryable by blast
  have once: "apiCall Part000 env_load_failed_once None ''http://localhost:5000/api'' ''/progress''
                get_progress 2 (initial_world default_config)
              = (Inl load_failed,
                 after_dispatch (web_request ''http://localhost:5000/api/progress''
                        (compose_headers None None) get_progress) (initial_world default_config))"
    using apiCall_fail_stop [OF attempt_load_failed_once] load_failed_not_retryable by blast
  show ?thesis
    unfolding apiCall_part000_def apiCall_AuthContext_def
    using stop [of Part000] stop [of AuthContextJs] once
    by (simp add: after_dispatch_def initial_world_def load_failed_def)
qed

lemma compose_headers_spec: "compose_headers token hdrs = headers_spec token hdrs"
proof (rule ext)
  fix k
  show "compose_headers token hdrs k = headers_spec token hdrs k"
  proof (cases hdrs)
    case None
    then show ?thesis
      by (cases token)
        (simp_all add: compose_headers_def headers_spec_def spread_opt_def spread_def
          auth_header_def map_add_def)
  next
    case (Some h)
    then show ?thesis
      by (cases token; cases "h k")
        (simp_all add: compose_headers_def headers_spec_def spread_opt_def spread_def
          auth_header_def map_add_def)
  qed
qed

lemma outgoing_headers:
  "outgoing e token base endpoint options = Inr req
   \<Longrightarrow> req_headers req = compose_headers token (opt_headers options)
     \<and> req_url req = base @ endpoint"
  by (auto simp: outgoing_def native_request_def web_request_def split: if_splits sum.splits)

lemma new_requests_apiCall:
  "\<exists>n req. new_requests w (snd (apiCall v e token base endpoint options retries w)) = replicate n req
     \<and> req_headers req = compose_headers token (opt_headers options)
     \<and> req_url req = base @ endpoint"
proof (cases "outgoing e token base endpoint options")
  case (Inl err)
  have "new_requests w (snd (apiCall v e token base endpoint options retries w))
        = replicate 0 (web_request (base @ endpoint) (compose_headers token (opt_headers options)) options)"
    using apiCall_never_sent [OF Inl, of v retries w] by (simp add: new_requests_def)
  then show ?thesis
    by (intro exI [of _ 0]
        exI [of _ "web_request (base @ endpoint) (compose_headers token (opt_headers options)) options"])
      (simp add: web_request_def)
next
  case (Inr req)
  obtain n where "dispatched (trace (snd (apiCall v e token base endpoint options retries w)))
            = dispatched (trace w) @ replicate n req"
    using apiCall_same_request [OF Inr, of retries v w] by blast
  then have "new_requests w (snd (apiCall v e token base endpoint options retries w)) = replicate n req"
    by (simp add: new_requests_def)
  then show ?thesis using outgoing_headers [OF Inr] by blast
qed

text \<open>
  Claim C5. Every request that a call hands to a transport, on the first attempt and on
  every retry, carries the headers \<^verbatim>\<open>Content-Type: application/json\<close>, plus
  \<^verbatim>\<open>Authorization: Bearer <token>\<close> exactly when a token is held, merged with the
  caller's headers, the caller's value winning on every key it supplies. A token is held
  when the captured value is a non-empty string, which is what the source tests. In
  particular, when no token is held the executor adds no \<^verbatim>\<open>Authorization\<close> header:
  unless the caller supplied one, the request has none.
\<close>

theorem dispatched_headers:
  "\<forall>r \<in> set (new_requests w (snd (apiCall v e token base endpoint options retries w))).
      req_headers r = headers_spec token (opt_headers options)
      \<and> (\<not> truthy token \<and> (case opt_headers options of None \<Rightarrow> True
                                | Some h \<Rightarrow> h ''Authorization'' = None)
         \<longrightarrow> req_headers r ''Authorization'' = None)"
proof
  fix r
  assume r: "r \<in> set (new_requests w (snd (apiCall v e token base endpoint options retries w)))"
  obtain n req where n: "new_requests w (snd (apiCall v e token base endpoint options retries w))
                         = replicate n req"
    and h: "req_headers req = compose_headers token (opt_headers options)"
    using new_requests_apiCall [of w v e token base endpoint options retries] by blast
  have "r = req" using r n by simp
  then have eq: "req_headers r = headers_spec token (opt_headers options)"
    using h by (simp add: compose_headers_spec)
  show "req_headers r = headers_spec token (opt_headers options)
      \<and> (\<not> truthy token \<and> (case opt_headers options of None \<Rightarrow> True
                                | Some h \<Rightarrow> h ''Authorization'' = None)
         \<longrightarrow> req_headers r ''Authorization'' = None)"
    using eq by (auto simp: headers_spec_def truthy_def split: option.splits)
qed

subsection \<open>The executor with failover and the invariant\<close>

lemma tryApiCall_state:
  "currentApiUrl (snd (tryApiCall e token endpoint options baseUrl w)) = currentApiUrl w"
  by (simp add: tryApiCall_def await_fetch_def split: sum.splits prod.splits option.splits)

lemma apiCall_part001_url:
  "currentApiUrl (snd (apiCall_part001 cfg e token cur endpoint options w))
     \<in> {currentApiUrl w, PRODUCTION_API_URL cfg, LOCAL_API_URL cfg}"
proof -
  obtain r1 w1 where a: "tryApiCall e token endpoint options cur w = (r1, w1)" by fastforce
  have u1: "currentApiUrl w1 = currentApiUrl w" using tryApiCall_state [of e token endpoint options cur w] a by simp
  obtain r2 w2 where b: "tryApiCall e token endpoint options (LOCAL_API_URL cfg)
                    (setCurrentApiUrl (LOCAL_API_URL cfg) w1) = (r2, w2)" by fastforce
  have u2: "currentApiUrl w2 = LOCAL_API_URL cfg"
    using tryApiCall_state [of e token endpoint options "LOCAL_API_URL cfg" "setCurrentApiUrl (LOCAL_API_URL cfg) w1"] b
    by (simp add: setCurrentApiUrl_def)
  obtain r3 w3 where c: "tryApiCall e token endpoint options (PRODUCTION_API_URL cfg)
                    (setCurrentApiUrl (PRODUCTION_API_URL cfg) w1) = (r3, w3)" by fastforce
  have u3: "currentApiUrl w3 = PRODUCTION_API_URL cfg"
    using tryApiCall_state [of e token endpoint options "PRODUCTION_API_URL cfg" "setCurrentApiUrl (PRODUCTION_API_URL cfg) w1"] c
    by (simp add: setCurrentApiUrl_def)
  show ?thesis
    using a b c u1 u2 u3
    by (auto simp: apiCall_part001_def setCurrentApiUrl_def split: sum.splits option.splits)
qed

lemma exec_op_invariant:
  assumes "currentApiUrl w \<in> {PRODUCTION_API_URL cfg, LOCAL_API_URL cfg}"
  shows "currentApiUrl (exec_op cfg e w x) \<in> {PRODUCTION_API_URL cfg, LOCAL_API_URL cfg}"
proof (cases x)
  case Probe000
  then show ?thesis using assms by (simp add: probe000_char Let_def)
next
  case Probe001
  then show ?thesis using assms by (simp add: probe001_char Let_def)
next
  case (Call000 token cur endpoint options retries)
  then show ?thesis using assms by (simp add: apiCall_part000_def apiCall_keeps_state)
next
  case (Call001 token cur endpoint options)
  then show ?thesis
    using assms apiCall_part001_url [of cfg e token cur endpoint options w] by auto
qed

lemma foldl_exec_op_invariant:
  "currentApiUrl w \<in> {PRODUCTION_API_URL cfg, LOCAL_API_URL cfg}
   \<Longrightarrow> currentApiUrl (foldl (exec_op cfg e) w ops) \<in> {PRODUCTION_API_URL cfg, LOCAL_API_URL cfg}"
proof (induction ops arbitrary: w)
  case Nil
  then show ?case by simp
next
  case (Cons x xs)
  show ?case using Cons.IH [OF exec_op_invariant [OF Cons.prems]] by simp
qed

text \<open>
  Claim C8. After any sequence of probes and executor calls, started from the initial
  state, the Active Endpoint is the base URL of the primary or of the fallback candidate.
  (It is never undefined: the state cell starts at the primary base URL.)
\<close>

theorem active_endpoint_is_candidate:
  "currentApiUrl (run cfg e ops) \<in> {PRODUCTION_API_URL cfg, LOCAL_API_URL cfg}"
  unfolding run_def by (rule foldl_exec_op_invariant) (simp add: initial_world_def)

lemma str_includes_prefix: "starts_with xs s \<Longrightarrow> str_includes xs s"
  by (cases xs) (simp_all add: starts_with_def)

lemma str_includes_append_left: "str_includes ys s \<Longrightarrow> str_includes (xs @ ys) s"
  by (induction xs) simp_all

lemma str_includes_middle: "str_includes (a @ s @ b) s"
  by (rule str_includes_append_left, rule str_includes_prefix) (simp add: starts_with_def)

lemma str_includes_last: "str_includes (a @ b @ c @ s) s"
  by (intro str_includes_append_left str_includes_prefix) (simp add: starts_with_def)

text \<open>
  Claim C10. In \<^verbatim>\<open>part_001\<close>, when the attempt against the captured endpoint fails
  and the attempt against the other endpoint fails too, the call throws one error whose
  message contains the messages of both failures, and the Active Endpoint is the
  production base URL afterwards, whichever endpoint the call started with.
\<close>

theorem both_endpoints_fail:
  "tryApiCall e token endpoint options cur w = (Some (Inl e1), w1)
   \<and> tryApiCall e token endpoint options
        (if cur \<noteq> LOCAL_API_URL cfg then LOCAL_API_URL cfg else PRODUCTION_API_URL cfg)
        (setCurrentApiUrl
          (if cur \<noteq> LOCAL_API_URL cfg then LOCAL_API_URL cfg else PRODUCTION_API_URL cfg) w1)
       = (Some (Inl e2), w2)
   \<longrightarrow> (\<exists>err. fst (apiCall_part001 cfg e token cur endpoint options w) = Some (Inl err)
          \<and> err_message err =
              (if cur \<noteq> LOCAL_API_URL cfg
               then ''Both production and local APIs failed. Production: '' @ err_message e1
                    @ '', Local: '' @ err_message e2
               else ''Both APIs failed. Local: '' @ err_message e1
                    @ '', Production: '' @ err_message e2)
          \<and> str_includes (err_message err) (err_message e1)
          \<and> str_includes (err_message err) (err_message e2))
       \<and> currentApiUrl (snd (apiCall_part001 cfg e token cur endpoint options w))
           = PRODUCTION_API_URL cfg"
proof
  define other where
    "other = (if cur \<noteq> LOCAL_API_URL cfg then LOCAL_API_URL cfg else PRODUCTION_API_URL cfg)"
  define msg where
    "msg = (if cur \<noteq> LOCAL_API_URL cfg
               then ''Both production and local APIs failed. Production: '' @ err_message e1
                    @ '', Local: '' @ err_message e2
               else ''Both APIs failed. Local: '' @ err_message e1
                    @ '', Production: '' @ err_message e2)"
  assume "tryApiCall e token endpoint options cur w = (Some (Inl e1), w1)
   \<and> tryApiCall e token endpoint options
        (if cur \<noteq> LOCAL_API_URL cfg then LOCAL_API_URL cfg else PRODUCTION_API_URL cfg)
        (setCurrentApiUrl
          (if cur \<noteq> LOCAL_API_URL cfg then LOCAL_API_URL cfg else PRODUCTION_API_URL cfg) w1)
       = (Some (Inl e2), w2)"
  then have a1: "tryApiCall e token endpoint options cur w = (Some (Inl e1), w1)"
    and a2: "tryApiCall e token endpoint options other (setCurrentApiUrl other w1) = (Some (Inl e2), w2)"
    by (simp_all add: other_def)
  have u: "currentApiUrl w2 = other"
    using a2 tryApiCall_state [of e token endpoint options other "setCurrentApiUrl other w1"]
    by (simp add: setCurrentApiUrl_def)
  have r: "fst (apiCall_part001 cfg e token cur endpoint options w) = Some (Inl (JsError ''Error'' msg))
         \<and> currentApiUrl (snd (apiCall_part001 cfg e token cur endpoint options w))
             = PRODUCTION_API_URL cfg"
  proof (cases "cur \<noteq> LOCAL_API_URL cfg")
    case True
    then have o: "other = LOCAL_API_URL cfg" by (simp add: other_def)
    show ?thesis
      using True a1 a2 [unfolded o] by (simp add: apiCall_part001_def msg_def setCurrentApiUrl_def)
  next
    case False
    then have o: "other = PRODUCTION_API_URL cfg" by (simp add: other_def)
    show ?thesis
      using False a1 a2 [unfolded o] u [unfolded o] by (simp add: apiCall_part001_def msg_def)
  qed
  have i1: "str_includes msg (err_message e1)"
    unfolding msg_def by (cases "cur \<noteq> LOCAL_API_URL cfg") (simp_all only: if_True if_False simp_thms str_includes_middle)
  have i2: "str_includes msg (err_message e2)"
    unfolding msg_def by (cases "cur \<noteq> LOCAL_API_URL cfg") (simp_all only: if_True if_False simp_thms str_includes_last)
  have "\<exists>err. fst (apiCall_part001 cfg e token cur endpoint options w) = Some (Inl err)
          \<and> err_message err = msg
          \<and> str_includes (err_message err) (err_message e1)
          \<and> str_includes (err_message err) (err_message e2)"
    using r i1 i2 by (intro exI [of _ "JsError ''Error'' msg"]) simp
  then show "(\<exists>err. fst (apiCall_part001 cfg e token cur endpoint options w) = Some (Inl err)
          \<and> err_message err =
              (if cur \<noteq> LOCAL_API_URL cfg
               then ''Both production and local APIs failed. Production: '' @ err_message e1
                    @ '', Local: '' @ err_message e2
               else ''Both APIs failed. Local: '' @ err_message e1
                    @ '', Production: '' @ err_message e2)
          \<and> str_includes (err_message err) (err_message e1)
          \<and> str_includes (err_message err) (err_message e2))
       \<and> currentApiUrl (snd (apiCall_part001 cfg e token cur endpoint options w))
           = PRODUCTION_API_URL cfg"
    using r unfolding msg_def by blast
qed

lemma tryApiCall_unreachable:
  "tryApiCall env_unreachable token endpoint options baseUrl x
   = (Some (Inl failed_to_fetch),
      after_dispatch (config_request token (baseUrl @ endpoint) options) x)"
  by (simp add: tryApiCall_def env_unreachable_def await_fetch_def after_dispatch_def)

theorem both_endpoints_fail_witness:
  "(\<exists>err. fst (apiCall_part001 default_config env_unreachable None
               ''https://yoga-pose-detection-1.onrender.com/api'' ''/progress'' get_progress
               (initial_world default_config)) = Some (Inl err)
       \<and> err_message err
           = ''Both production and local APIs failed. Production: Failed to fetch, Local: Failed to fetch'')
   \<and> currentApiUrl (snd (apiCall_part001 default_config env_unreachable None
               ''http://localhost:5000/api'' ''/progress'' get_progress
               (setCurrentApiUrl ''http://localhost:5000/api'' (initial_world default_config))))
       = ''https://yoga-pose-detection-1.onrender.com/api''"
proof -
  let ?P = "''https://yoga-pose-detection-1.onrender.com/api''"
  let ?L = "''http://localhost:5000/api''"
  let ?w = "initial_world default_config"
  have neq: "?P \<noteq> LOCAL_API_URL default_config" by (simp add: default_config_def)
  have l: "LOCAL_API_URL default_config = ?L" and p: "PRODUCTION_API_URL default_config = ?P"
    by (simp_all add: default_config_def)
  have one: "(\<exists>err. fst (apiCall_part001 default_config env_unreachable None ?P ''/progress''
               get_progress ?w) = Some (Inl err)
       \<and> err_message err
           = ''Both production and local APIs failed. Production: '' @ err_message failed_to_fetch
             @ '', Local: '' @ err_message failed_to_fetch)"
    using both_endpoints_fail [where e = env_unreachable and token = None
        and endpoint = "''/progress''" and options = get_progress and cur = ?P and w = ?w
        and cfg = default_config and ?e1.0 = failed_to_fetch and ?e2.0 = failed_to_fetch
        and ?w1.0 = "after_dispatch (config_request None (?P @ ''/progress'') get_progress) ?w"
        and ?w2.0 = "after_dispatch
                       (config_request None (LOCAL_API_URL default_config @ ''/progress'') get_progress)
                       (setCurrentApiUrl (LOCAL_API_URL default_config)
                          (after_dispatch (config_request None (?P @ ''/progress'') get_progress) ?w))"]
      neq
    by (simp only: tryApiCall_unreachable if_True simp_thms) blast
  have two: "currentApiUrl (snd (apiCall_part001 default_config env_unreachable None ?L ''/progress''
               get_progress (setCurrentApiUrl ?L ?w))) = PRODUCTION_API_URL default_config"
    using both_endpoints_fail [where e = env_unreachable and token = None
        and endpoint = "''/progress''" and options = get_progress and cur = ?L
        and w = "setCurrentApiUrl ?L ?w"
        and cfg = default_config and ?e1.0 = failed_to_fetch and ?e2.0 = failed_to_fetch
        and ?w1.0 = "after_dispatch (config_request None (?L @ ''/progress'') get_progress)
                       (setCurrentApiUrl ?L ?w)"
        and ?w2.0 = "after_dispatch
                       (config_request None (PRODUCTION_API_URL default_config @ ''/progress'') get_progress)
                       (setCurrentApiUrl (PRODUCTION_API_URL default_config)
                          (after_dispatch (config_request None (?L @ ''/progress'') get_progress)
                             (setCurrentApiUrl ?L ?w)))"]
      l
    by (simp only: tryApiCall_unreachable if_False simp_thms)
  show ?thesis using one two by (simp add: failed_to_fetch_def p)
qed

subsection \<open>Headers of a dispatched request, at a concrete call\<close>

lemma new_requests_append:
  "dispatched (trace w') = dispatched (trace w) @ rs \<Longrightarrow> new_requests w w' = rs"
  by (simp add: new_requests_def)

theorem dispatched_headers_witness:
  "req_headers (hd (new_requests (initial_world default_config)
       (snd (apiCall Part000 env_unreachable None ''http://localhost:5000/api'' ''/progress''
               get_progress 2 (initial_world default_config))))) ''Authorization'' = None
   \<and> req_headers (hd (new_requests (initial_world default_config)
       (snd (apiCall Part000 env_unreachable None ''http://localhost:5000/api'' ''/progress''
               get_progress 2 (initial_world default_config))))) ''Content-Type''
       = Some ''application/json''"
proof -
  let ?w = "initial_world default_config"
  let ?req = "web_request (''http://localhost:5000/api'' @ ''/progress'')
                (compose_headers None (opt_headers get_progress)) get_progress"
  let ?rs = "new_requests ?w (snd (apiCall Part000 env_unreachable None ''http://localhost:5000/api''
               ''/progress'' get_progress 2 ?w))"
  have out: "outgoing env_unreachable None ''http://localhost:5000/api'' ''/progress'' get_progress
             = Inr ?req"
    by (simp add: outgoing_def env_unreachable_def)
  have tr: "\<forall>n. \<exists>err. transport_error env_unreachable n ?req = Some err \<and> retryable Part000 err"
    by (simp add: transport_error_def env_unreachable_def failed_to_fetch_retryable)
  have "?rs = replicate (Suc 2) ?req"
    using new_requests_append [OF apiCall_always_transient(2) [OF out tr, of 2 ?w]] .
  then have mem: "hd ?rs \<in> set ?rs" by simp
  have "req_headers (hd ?rs) = headers_spec None (opt_headers get_progress)
      \<and> (\<not> truthy None \<and> (case opt_headers get_progress of None \<Rightarrow> True
                                | Some h \<Rightarrow> h ''Authorization'' = None)
         \<longrightarrow> req_headers (hd ?rs) ''Authorization'' = None)"
    using dispatched_headers [of ?w Part000 env_unreachable None "''http://localhost:5000/api''"
        "''/progress''" get_progress 2] mem by blast
  then show ?thesis
    by (simp add: truthy_def get_progress_def headers_spec_def)
qed

subsection \<open>Classification of errors by their message\<close>

lemma starts_with_iff: "starts_with s sub \<longleftrightarrow> (\<exists>q. s = sub @ q)"
proof
  assume "starts_with s sub"
  then have "s = sub @ drop (length sub) s"
    by (metis append_take_drop_id starts_with_def)
  then show "\<exists>q. s = sub @ q" ..
next
  assume "\<exists>q. s = sub @ q"
  then show "starts_with s sub" by (auto simp: starts_with_def)
qed

lemma str_includes_iff: "str_includes s sub \<longleftrightarrow> (\<exists>p q. s = p @ sub @ q)"
proof (induction s)
  case Nil
  then show ?case by auto
next
  case (Cons c cs)
  show ?case
  proof
    assume "str_includes (c # cs) sub"
    then consider "starts_with (c # cs) sub" | "str_includes cs sub" by auto
    then show "\<exists>p q. c # cs = p @ sub @ q"
    proof cases
      case 1
      then obtain q where "c # cs = sub @ q" using starts_with_iff by blast
      then have "c # cs = [] @ sub @ q" by simp
      then show ?thesis by blast
    next
      case 2
      then obtain p q where "cs = p @ sub @ q" using Cons.IH by blast
      then have "c # cs = (c # p) @ sub @ q" by simp
      then show ?thesis by blast
    qed
  next
    assume "\<exists>p q. c # cs = p @ sub @ q"
    then obtain p q where pq: "c # cs = p @ sub @ q" by blast
    show "str_includes (c # cs) sub"
    proof (cases p)
      case Nil
      then have "starts_with (c # cs) sub" using pq starts_with_iff by auto
      then show ?thesis by simp
    next
      case (Cons d p')
      then have "cs = p' @ sub @ q" using pq by simp
      then have "str_includes cs sub" using Cons.IH by blast
      then show ?thesis by simp
    qed
  qed
qed

lemma str_includes_suffix_of_needle:
  "str_includes s (a @ b) \<Longrightarrow> str_includes s b"
proof -
  assume "str_includes s (a @ b)"
  then obtain p q where "s = p @ (a @ b) @ q" using str_includes_iff by blast
  then have "s = (p @ a) @ b @ q" by simp
  then show ?thesis using str_includes_iff by blast
qed

lemma retryable_iff:
  "retryable v err \<longleftrightarrow>
     err_name err = ''AbortError'' \<or> str_includes (err_message err) ''fetch''
     \<or> str_includes (err_message err) ''network''"
proof (cases v)
  case AuthContextJs
  have "str_includes (err_message err) ''Failed to fetch'' \<Longrightarrow> str_includes (err_message err) ''fetch''"
    using str_includes_suffix_of_needle [of "err_message err" "''Failed to ''" "''fetch''"] by simp
  then show ?thesis using AuthContextJs by (auto simp: retryable_def)
next
  case Part000
  then show ?thesis by (simp add: retryable_def)
qed

lemma business_error_not_retried:
  assumes out: "outgoing e token base endpoint options = Inr req"
    and web: "\<not> isNative e \<Longrightarrow>
               \<exists>res body. fetch e (tick w) req = Inr res \<and> \<not> ok res
                 \<and> res_json res = Inr (JsonObject body)
                 \<and> msg = or_else (body ''message'') (generic_message v)"
    and native: "isNative e \<Longrightarrow>
               \<exists>res body. capacitorHttp e (tick w) req = Inr res \<and> 400 \<le> cap_status res
                 \<and> cap_data res = JsonObject body
                 \<and> msg = or_else (body ''message'') (generic_message v)"
    and nf: "\<not> str_includes msg ''fetch''" and nn: "\<not> str_includes msg ''network''"
  shows "apiCall v e token base endpoint options retries w
         = (Inl (JsError ''Error'' msg), after_dispatch req w)"
proof -
  have a: "attempt v e token base endpoint options w = (Inl (JsError ''Error'' msg), after_dispatch req w)"
  proof (cases "isNative e")
    case True
    then obtain res body where "capacitorHttp e (tick w) req = Inr res" "400 \<le> cap_status res"
      "cap_data res = JsonObject body"
      "msg = or_else (body ''message'') (generic_message v)"
      using native by blast
    then show ?thesis using out True
      by (cases v)
        (auto simp: outgoing_def attempt_def Let_def await_capacitor_def after_dispatch_def
          native_message_def read_message_def read_message_optional_def split: sum.splits)
  next
    case False
    then obtain res body where "fetch e (tick w) req = Inr res" "\<not> ok res"
      "res_json res = Inr (JsonObject body)"
      "msg = or_else (body ''message'') (generic_message v)"
      using web by blast
    then show ?thesis using out False
      by (auto simp: outgoing_def attempt_def Let_def await_fetch_with_abort_def after_dispatch_def
          read_message_def)
  qed
  have "\<not> retryable v (JsError ''Error'' msg)"
    using nf nn by (simp add: retryable_iff)
  then show ?thesis using apiCall_fail_stop [OF a] by simp
qed

text \<open>
  A native response with status 400 or above and no data: \<^verbatim>\<open>AuthContext.js\<close> throws the
  engine's \<^verbatim>\<open>TypeError\<close>, \<^verbatim>\<open>part_000\<close> the generic message.
\<close>

lemma native_error_without_data:
  assumes "isNative e"
    and "native_data e (opt_body options) = Inr d"
    and "capacitorHttp e (tick w)
           (native_request (base @ endpoint) (compose_headers token (opt_headers options)) options d)
         = Inr res"
    and "400 \<le> cap_status res"
    and "cap_data res = JsonNull"
  shows "fst (attempt AuthContextJs e token base endpoint options w)
           = Inl (JsError ''TypeError'' (null_read_message e))"
    and "fst (attempt Part000 e token base endpoint options w)
           = Inl (JsError ''Error'' ''Request failed'')"
  using assms
  by (simp_all add: attempt_def Let_def await_capacitor_def native_message_def read_message_def
      read_message_optional_def or_else_def generic_message_def)

lemma apiCall_fixed_retryable:
  assumes a: "\<And>x. attempt v e token base endpoint options x = (Inl err, after_dispatch req x)"
    and t: "retryable v err"
  shows "fst (apiCall v e token base endpoint options retries w) = Inl err
       \<and> dispatched (trace (snd (apiCall v e token base endpoint options retries w)))
           = dispatched (trace w) @ replicate (Suc retries) req
       \<and> sleeps (trace (snd (apiCall v e token base endpoint options retries w)))
           = sleeps (trace w) @ replicate retries 2000"
proof (induction retries arbitrary: w)
  case 0
  show ?case by (simp add: apiCall_fail_stop [OF a] after_dispatch_def)
next
  case (Suc k)
  have step: "apiCall v e token base endpoint options (Suc k) w
          = apiCall v e token base endpoint options k (sleep 2000 (after_dispatch req w))"
    using apiCall_fail_retry [OF a _ t, of "Suc k" w] by simp
  show ?case using Suc.IH [of "sleep 2000 (after_dispatch req w)"]
    by (simp add: step sleep_def after_dispatch_def replicate_append_same)
qed

lemma attempt_env_rejecting:
  "msg \<noteq> [] \<Longrightarrow>
   attempt v (env_rejecting msg) token base endpoint options x
     = (Inl (JsError ''Error'' msg),
        after_dispatch (web_request (base @ endpoint) (compose_headers token (opt_headers options)) options) x)"
  by (simp add: attempt_def env_rejecting_def await_fetch_with_abort_def after_dispatch_def Let_def ok_def
      or_else_def read_message_def)

lemma fetch_in_message: "str_includes ''Could not fetch user'' ''fetch''"
  by (simp add: starts_with_def)

lemma two_sleeps: "replicate 2 (2000::nat) = [2000, 2000]"
  by (simp add: numeral_2_eq_2)

text \<open>
  Claim C4. A response with status 400 or above that carries a message is to be surfaced
  with that message and never retried. The executor classifies the thrown error by the
  text of its message, so a rejection whose server message contains \<^verbatim>\<open>fetch\<close> or
  \<^verbatim>\<open>network\<close> is taken for a network failure: at HTTP 400 with the message
  \<^verbatim>\<open>Could not fetch user\<close> and a retry budget of 2, both \<^verbatim>\<open>part_000\<close> and
  \<^verbatim>\<open>AuthContext.js\<close> dispatch the request three times, with two backoff waits,
  before they surface the message. (For every message without these words,
  \<open>business_error_not_retried\<close> shows the single dispatch the claim asks for.)
\<close>

theorem business_error_retried:
  "fst (apiCall_part000 (env_rejecting ''Could not fetch user'') None ''http://localhost:5000/api''
          ''/auth/login'' (post_body ''{}'') 2 (initial_world default_config))
     = Inl (JsError ''Error'' ''Could not fetch user'')
   \<and> length (dispatched (trace (snd (apiCall_part000 (env_rejecting ''Could not fetch user'') None
          ''http://localhost:5000/api'' ''/auth/login'' (post_body ''{}'') 2
          (initial_world default_config))))) = 3
   \<and> sleeps (trace (snd (apiCall_part000 (env_rejecting ''Could not fetch user'') None
          ''http://localhost:5000/api'' ''/auth/login'' (post_body ''{}'') 2
          (initial_world default_config)))) = [2000, 2000]
   \<and> length (dispatched (trace (snd (apiCall_AuthContext (env_rejecting ''Could not fetch user'') None
          ''http://localhost:5000/api'' ''/auth/login'' (post_body ''{}'') 2
          (initial_world default_config))))) = 3"
proof -
  have m: "''Could not fetch user'' \<noteq> []" by simp
  have t: "retryable v (JsError ''Error'' ''Could not fetch user'')" for v
    using fetch_in_message by (cases v) (simp_all add: retryable_def)
  show ?thesis
    unfolding apiCall_part000_def apiCall_AuthContext_def
    using apiCall_fixed_retryable [OF attempt_env_rejecting [OF m] t, of Part000 None
        "''http://localhost:5000/api''" "''/auth/login''" "post_body ''{}''" 2
        "initial_world default_config"]
      apiCall_fixed_retryable [OF attempt_env_rejecting [OF m] t, of AuthContextJs None
        "''http://localhost:5000/api''" "''/auth/login''" "post_body ''{}''" 2
        "initial_world default_config"]
    by (simp add: initial_world_def two_sleeps)
qed

subsection \<open>The URL of a retry\<close>

lemma attempt_production_unreachable:
  "attempt Part000 env_local_only None ''https://yoga-pose-detection-1.onrender.com/api''
     ''/progress'' get_progress x
   = (Inl failed_to_fetch,
      after_dispatch (web_request ''https://yoga-pose-detection-1.onrender.com/api/progress''
                        (compose_headers None None) get_progress) x)"
  by (simp add: attempt_def env_local_only_def await_fetch_with_abort_def after_dispatch_def Let_def
      web_request_def get_progress_def starts_with_def)

lemma world_at_retry_url: "currentApiUrl world_at_retry = ''http://localhost:5000/api''"
  by (simp add: world_at_retry_def probe000_char Let_def healthy_def env_local_only_def
      health_request_def default_config_def starts_with_def ok_def)

text \<open>
  Claim C6, as amended. For every retry of a transiently failed call in \<^verbatim>\<open>part_000\<close>
  the executor waits a fixed backoff of 2000 ms, decrements the retry budget by one, and
  dispatches the retry against the URL of the first attempt: the Active Endpoint value
  that the callback captured, whatever the Active Endpoint is when the retry runs.
\<close>

theorem retry_keeps_captured_url:
  "(attempt Part000 e token capturedApiUrl endpoint options w = (Inl err, w1)
      \<and> 0 < retries \<and> retryable Part000 err
    \<longrightarrow> apiCall_part000 e token capturedApiUrl endpoint options retries w
        = apiCall_part000 e token capturedApiUrl endpoint options (retries - 1) (sleep 2000 w1)
        \<and> trace (sleep 2000 w1) = trace w1 @ [Sleep 2000])
   \<and> (\<exists>n. map req_url
              (new_requests (w'\<lparr>currentApiUrl := u\<rparr>)
                 (snd (apiCall_part000 e token capturedApiUrl endpoint options retries
                         (w'\<lparr>currentApiUrl := u\<rparr>))))
            = replicate n (capturedApiUrl @ endpoint))"
proof (intro conjI impI)
  assume "attempt Part000 e token capturedApiUrl endpoint options w = (Inl err, w1)
      \<and> 0 < retries \<and> retryable Part000 err"
  then show "apiCall_part000 e token capturedApiUrl endpoint options retries w
        = apiCall_part000 e token capturedApiUrl endpoint options (retries - 1) (sleep 2000 w1)"
    unfolding apiCall_part000_def using apiCall_fail_retry by blast
  show "trace (sleep 2000 w1) = trace w1 @ [Sleep 2000]" by (simp add: sleep_def)
next
  obtain n req where
    n: "new_requests (w'\<lparr>currentApiUrl := u\<rparr>)
          (snd (apiCall Part000 e token capturedApiUrl endpoint options retries (w'\<lparr>currentApiUrl := u\<rparr>)))
        = replicate n req"
    and url: "req_url req = capturedApiUrl @ endpoint"
    using new_requests_apiCall [of "w'\<lparr>currentApiUrl := u\<rparr>" Part000 e token capturedApiUrl endpoint
        options retries] by blast
  show "\<exists>n. map req_url
              (new_requests (w'\<lparr>currentApiUrl := u\<rparr>)
                 (snd (apiCall_part000 e token capturedApiUrl endpoint options retries
                         (w'\<lparr>currentApiUrl := u\<rparr>))))
            = replicate n (capturedApiUrl @ endpoint)"
    unfolding apiCall_part000_def by (rule exI [of _ n]) (simp add: n url)
qed

theorem retry_keeps_captured_url_witness:
  "apiCall_part000 env_local_only None ''https://yoga-pose-detection-1.onrender.com/api''
     ''/progress'' get_progress 2 (initial_world default_config)
   = apiCall_part000 env_local_only None ''https://yoga-pose-detection-1.onrender.com/api''
     ''/progress'' get_progress 1 (sleep 2000 world_after_first_failure)"
proof -
  have a: "attempt Part000 env_local_only None ''https://yoga-pose-detection-1.onrender.com/api''
     ''/progress'' get_progress (initial_world default_config)
     = (Inl failed_to_fetch, world_after_first_failure)"
    by (simp add: world_after_first_failure_def attempt_production_unreachable)
  show ?thesis
    using retry_keeps_captured_url [where e = env_local_only and token = None
        and capturedApiUrl = "''https://yoga-pose-detection-1.onrender.com/api''"
        and endpoint = "''/progress''" and options = get_progress and retries = 2
        and w = "initial_world default_config" and err = failed_to_fetch
        and ?w1.0 = world_after_first_failure]
      a failed_to_fetch_retryable [of Part000]
    by simp
qed

theorem retry_url_counterexample:
  "fst (attempt Part000 env_local_only None ''https://yoga-pose-detection-1.onrender.com/api''
          ''/progress'' get_progress (initial_world default_config)) = Inl failed_to_fetch
   \<and> currentApiUrl world_at_retry = ''http://localhost:5000/api''
   \<and> map req_url
        (new_requests world_at_retry
           (snd (apiCall_part000 env_local_only None ''https://yoga-pose-detection-1.onrender.com/api''
                   ''/progress'' get_progress 1 world_at_retry)))
       = [''https://yoga-pose-detection-1.onrender.com/api/progress'',
          ''https://yoga-pose-detection-1.onrender.com/api/progress'']"
proof -
  let ?req = "web_request ''https://yoga-pose-detection-1.onrender.com/api/progress''
                        (compose_headers None None) get_progress"
  have d: "dispatched (trace (snd (apiCall Part000 env_local_only None
              ''https://yoga-pose-detection-1.onrender.com/api'' ''/progress'' get_progress 1
              world_at_retry)))
           = dispatched (trace world_at_retry) @ replicate (Suc 1) ?req"
    using apiCall_fixed_retryable [OF attempt_production_unreachable failed_to_fetch_retryable,
        of 1 world_at_retry] by simp
  have u: "req_url ?req = ''https://yoga-pose-detection-1.onrender.com/api/progress''"
    by (simp add: web_request_def)
  have "map req_url (new_requests world_at_retry
           (snd (apiCall Part000 env_local_only None ''https://yoga-pose-detection-1.onrender.com/api''
                   ''/progress'' get_progress 1 world_at_retry)))
        = map req_url (replicate (Suc 1) ?req)"
    using new_requests_append [OF d] by simp
  then show ?thesis
    unfolding apiCall_part000_def
    by (simp add: u attempt_production_unreachable world_at_retry_url)
qed

subsection \<open>A body that is not JSON, on the native path\<close>

text \<open>
  Claim C7, as amended. On the native path, a body that is a non-empty string and not
  valid JSON makes \<^verbatim>\<open>JSON.parse\<close> throw before anything is handed to the transport:
  the call dispatches no request (none with a dropped body either) and the error it
  surfaces is the parse error. When the parse error is not classified as retryable, it is
  surfaced on the first attempt, with no backoff and no retry.
\<close>

theorem malformed_native_body:
  "isNative e \<and> opt_body options = Some b \<and> b \<noteq> [] \<and> JSON_parse e b = Inl err
   \<longrightarrow> fst (apiCall v e token base endpoint options retries w) = Inl err
       \<and> new_requests w (snd (apiCall v e token base endpoint options retries w)) = []
       \<and> (\<not> retryable v err
            \<longrightarrow> apiCall v e token base endpoint options retries w = (Inl err, w))"
proof
  assume h: "isNative e \<and> opt_body options = Some b \<and> b \<noteq> [] \<and> JSON_parse e b = Inl err"
  then have out: "outgoing e token base endpoint options = Inl err"
    by (simp add: outgoing_def native_data_def)
  have "fst (apiCall v e token base endpoint options retries w) = Inl err"
    and "new_requests w (snd (apiCall v e token base endpoint options retries w)) = []"
    using apiCall_never_sent [OF out, where v = v and retries = retries and w = w]
    by (simp_all add: new_requests_def)
  moreover have "\<not> retryable v err
            \<longrightarrow> apiCall v e token base endpoint options retries w = (Inl err, w)"
    using apiCall_fail_stop [OF attempt_not_sent [OF out]] by blast
  ultimately show "fst (apiCall v e token base endpoint options retries w) = Inl err
       \<and> new_requests w (snd (apiCall v e token base endpoint options retries w)) = []
       \<and> (\<not> retryable v err
            \<longrightarrow> apiCall v e token base endpoint options retries w = (Inl err, w))"
    by blast
qed

lemma parse_error_not_retryable:
  "\<not> retryable v (JsError ''SyntaxError'' ''JSON Parse error: Unexpected identifier {bad'')"
  by (cases v) (simp_all add: retryable_def starts_with_def)

theorem malformed_native_body_witness:
  "apiCall Part000 env_native None ''http://localhost:5000/api'' ''/auth/login'' (post_body ''{bad'') 2
     (initial_world default_config)
   = (Inl (JsError ''SyntaxError'' ''JSON Parse error: Unexpected identifier {bad''),
      initial_world default_config)"
  using malformed_native_body [where e = env_native and options = "post_body ''{bad''"
      and b = "''{bad''" and err = "JsError ''SyntaxError'' ''JSON Parse error: Unexpected identifier {bad''"
      and v = Part000 and token = None and base = "''http://localhost:5000/api''"
      and endpoint = "''/auth/login''" and retries = 2 and w = "initial_world default_config"]
    parse_error_not_retryable [of Part000]
  by (simp add: env_native_def post_body_def)

lemma attempt_native_empty_body:
  "attempt Part000 env_native None ''http://localhost:5000/api'' ''/auth/login'' (post_body []) x
   = (Inr (JsonObject [''success'' \<mapsto> ''true'']),
      after_dispatch (native_request ''http://localhost:5000/api/auth/login''
                        (compose_headers None None) (post_body []) NoBody) x)"
  by (simp add: attempt_def env_native_def await_capacitor_def after_dispatch_def Let_def
      native_data_def post_body_def native_request_def)

lemma attempt_native_network_body:
  "attempt Part000 env_native None ''http://localhost:5000/api'' ''/auth/login''
     (post_body ''network'') x
   = (Inl (JsError ''SyntaxError'' ''JSON Parse error: Unexpected identifier network''), x)"
  by (simp add: attempt_def env_native_def Let_def native_data_def post_body_def)

lemma network_parse_error_retryable:
  "retryable Part000 (JsError ''SyntaxError'' ''JSON Parse error: Unexpected identifier network'')"
  by (simp add: retryable_def starts_with_def)

lemma apiCall_network_body_sleeps:
  "fst (apiCall Part000 env_native None ''http://localhost:5000/api'' ''/auth/login''
          (post_body ''network'') retries w)
     = Inl (JsError ''SyntaxError'' ''JSON Parse error: Unexpected identifier network'')
   \<and> sleeps (trace (snd (apiCall Part000 env_native None ''http://localhost:5000/api'' ''/auth/login''
          (post_body ''network'') retries w)))
     = sleeps (trace w) @ replicate retries 2000"
proof (induction retries arbitrary: w)
  case 0
  show ?case by (simp add: apiCall_fail_stop [OF attempt_native_network_body])
next
  case (Suc k)
  have step: "apiCall Part000 env_native None ''http://localhost:5000/api'' ''/auth/login''
          (post_body ''network'') (Suc k) w
        = apiCall Part000 env_native None ''http://localhost:5000/api'' ''/auth/login''
          (post_body ''network'') k (sleep 2000 w)"
    using apiCall_fail_retry [OF attempt_native_network_body _ network_parse_error_retryable,
        of "Suc k" w] by simp
  show ?case using Suc.IH [of "sleep 2000 w"]
    by (simp add: step sleep_def replicate_append_same)
qed

theorem malformed_native_body_counterexample:
  "JSON_parse env_native [] = Inl (JsError ''SyntaxError'' ''JSON Parse error: Unexpected identifier '')
   \<and> fst (apiCall Part000 env_native None ''http://localhost:5000/api'' ''/auth/login''
            (post_body []) 2 (initial_world default_config))
       = Inr (JsonObject [''success'' \<mapsto> ''true''])
   \<and> map req_body (dispatched (trace (snd (apiCall Part000 env_native None
            ''http://localhost:5000/api'' ''/auth/login'' (post_body []) 2
            (initial_world default_config)))))
       = [NoBody]
   \<and> JSON_parse env_native ''network''
       = Inl (JsError ''SyntaxError'' ''JSON Parse error: Unexpected identifier network'')
   \<and> sleeps (trace (snd (apiCall Part000 env_native None ''http://localhost:5000/api''
            ''/auth/login'' (post_body ''network'') 2 (initial_world default_config))))
       = [2000, 2000]"
proof -
  let ?w = "initial_world default_config"
  have p1: "JSON_parse env_native []
            = Inl (JsError ''SyntaxError'' ''JSON Parse error: Unexpected identifier '')"
    and p2: "JSON_parse env_native ''network''
            = Inl (JsError ''SyntaxError'' ''JSON Parse error: Unexpected identifier network'')"
    by (simp_all add: env_native_def)
  have r: "apiCall Part000 env_native None ''http://localhost:5000/api'' ''/auth/login''
            (post_body []) 2 ?w
           = (Inr (JsonObject [''success'' \<mapsto> ''true'']),
              after_dispatch (native_request ''http://localhost:5000/api/auth/login''
                        (compose_headers None None) (post_body []) NoBody) ?w)"
    using apiCall_success [OF attempt_native_empty_body] .
  have b: "map req_body (dispatched (trace (after_dispatch
              (native_request ''http://localhost:5000/api/auth/login''
                        (compose_headers None None) (post_body []) NoBody) ?w))) = [NoBody]"
    by (simp add: after_dispatch_def native_request_def initial_world_def)
  have s: "sleeps (trace (snd (apiCall Part000 env_native None ''http://localhost:5000/api''
            ''/auth/login'' (post_body ''network'') 2 ?w))) = [2000, 2000]"
    using apiCall_network_body_sleeps [of 2 ?w] by (simp add: initial_world_def two_sleeps)
  show ?thesis
    using p1 p2 b s by (simp only: r fst_conv snd_conv simp_thms)
qed

end
